theory Spec2Isabelle
  imports Complex_Main "HOL-Library.Sublist"
begin

section \<open>JavaScript values\<close>

text \<open>
  The values that flow through \<^verbatim>\<open>json-extract-rules.js\<close> are JSON values, plus
  \<^verbatim>\<open>undefined\<close>. A number is an IEEE double: not-a-number, one of the two infinities, or
  a finite value (a rational; the two zeros are not told apart, nothing in the node does).
  An object is the list of its own enumerable properties in the order \<^verbatim>\<open>Object.keys\<close>
  lists them. A thrown value is kept with its \<^verbatim>\<open>message\<close>, the only part of it the
  node reads.
\<close>

datatype jsnum = JNaN | JPosInf | JNegInf | JFin rat

datatype jsval =
    JUndef
  | JNull
  | JBool bool
  | JNum jsnum
  | JStr string
  | JArr "jsval list"
  | JObj "(string \<times> jsval) list"

datatype exn = Exn string

fun exn_message :: "exn \<Rightarrow> string" where
  "exn_message (Exn m) = m"

text \<open>
  A computation that may throw returns \<open>Inl\<close> of what it throws or \<open>Inr\<close> of its
  value; \<open>then_do\<close> runs the next step on the value and passes a throw on.
\<close>

fun then_do :: "exn + 'a \<Rightarrow> ('a \<Rightarrow> exn + 'b) \<Rightarrow> exn + 'b" where
  "then_do (Inl e) f = Inl e"
| "then_do (Inr x) f = f x"

text \<open>\<^verbatim>\<open>v == null\<close>: true of \<^verbatim>\<open>null\<close> and \<^verbatim>\<open>undefined\<close> only.\<close>

definition nullish :: "jsval \<Rightarrow> bool" where
  "nullish v \<longleftrightarrow> v = JUndef \<or> v = JNull"

text \<open>ToBoolean, as \<^verbatim>\<open>if (v)\<close>, \<^verbatim>\<open>!v\<close> and \<^verbatim>\<open>v ? a : b\<close> read a value.\<close>

fun truthy :: "jsval \<Rightarrow> bool" where
  "truthy JUndef = False"
| "truthy JNull = False"
| "truthy (JBool b) = b"
| "truthy (JNum n) = (n \<noteq> JNaN \<and> n \<noteq> JFin 0)"
| "truthy (JStr s) = (s \<noteq> [])"
| "truthy (JArr xs) = True"
| "truthy (JObj kvs) = True"

text \<open>\<^verbatim>\<open>a || b\<close> and \<^verbatim>\<open>a ?? b\<close>.\<close>

definition js_or :: "jsval \<Rightarrow> jsval \<Rightarrow> jsval" where
  "js_or a b = (if truthy a then a else b)"

definition js_coalesce :: "jsval \<Rightarrow> jsval \<Rightarrow> jsval" where
  "js_coalesce a b = (if nullish a then b else a)"

text \<open>\<^verbatim>\<open>Number.isFinite\<close>.\<close>

fun isFinite :: "jsnum \<Rightarrow> bool" where
  "isFinite (JFin q) = True"
| "isFinite n = False"

text \<open>
  The built-ins of the language that the node calls are parameters of the model.
  \<^verbatim>\<open>String(v)\<close> and \<^verbatim>\<open>Number(v)\<close> may throw: on an object with an own property
  \<^verbatim>\<open>toString\<close> (in a JSON value it is never a function) the conversion to a primitive
  fails with a TypeError, and so it does on an array that holds such an object. The same
  conversion is behind a template literal \<^verbatim>\<open>`${v}`\<close> and behind a property key
  \<^verbatim>\<open>obj[v]\<close>. \<^verbatim>\<open>JSON.parse(s)\<close> may throw. \<^verbatim>\<open>s.trim()\<close>,
  \<^verbatim>\<open>s.toLowerCase()\<close> and \<^verbatim>\<open>s.toUpperCase()\<close> always return.
  \<open>js_max_args\<close> is the largest number of arguments a call can take: a call
  \<^verbatim>\<open>f(...xs)\<close> with a longer \<^verbatim>\<open>xs\<close> throws a RangeError. It depends on the engine
  and its stack, and is of the order of a hundred thousand in Node.js.
\<close>

record js_runtime =
  js_String :: "jsval \<Rightarrow> exn + string"
  js_Number :: "jsval \<Rightarrow> exn + jsnum"
  js_trim :: "string \<Rightarrow> string"
  js_toLowerCase :: "string \<Rightarrow> string"
  js_toUpperCase :: "string \<Rightarrow> string"
  js_JSON_parse :: "string \<Rightarrow> exn + jsval"
  js_max_args :: nat

text \<open>
  The string form of an index (of a rule, of an element): its decimal digits.
\<close>

fun show_digits :: "nat \<Rightarrow> nat \<Rightarrow> string" where
  "show_digits 0 n = []"
| "show_digits (Suc fuel) n =
     (if n < 10 then [char_of (48 + n)]
      else show_digits fuel (n div 10) @ [char_of (48 + n mod 10)])"

definition show_nat :: "nat \<Rightarrow> string" where
  "show_nat n = show_digits (Suc n) n"

section \<open>NA policy and transforms\<close>

text \<open>
  \<^verbatim>\<open>mkNASet(values)\<close>. The set holds the lower-cased string forms of the configured
  values (\<^verbatim>\<open>values || []\<close>: none when the list is absent), built from left to right;
  a value with no string form makes \<^verbatim>\<open>mkNASet\<close> throw. The function it returns is
  the NA test, which throws when \<^verbatim>\<open>String(v)\<close> does.
\<close>

fun lower_tokens :: "js_runtime \<Rightarrow> jsval list \<Rightarrow> exn + string list" where
  "lower_tokens rt [] = Inr []"
| "lower_tokens rt (s # ss) =
     then_do (js_String rt s) (\<lambda>t.
     then_do (lower_tokens rt ss) (\<lambda>ts. Inr (js_toLowerCase rt t # ts)))"

definition na_test :: "js_runtime \<Rightarrow> string list \<Rightarrow> jsval \<Rightarrow> exn + bool" where
  "na_test rt tokens v =
     (if nullish v then Inr True
      else then_do (js_String rt v) (\<lambda>s0.
             let s = js_trim rt s0
             in if s = [] then Inr True
                else Inr (js_toLowerCase rt s \<in> set tokens)))"

definition mkNASet :: "js_runtime \<Rightarrow> jsval list option \<Rightarrow> exn + (jsval \<Rightarrow> exn + bool)" where
  "mkNASet rt values =
     then_do (lower_tokens rt (case values of None \<Rightarrow> [] | Some vs \<Rightarrow> vs))
       (\<lambda>tokens. Inr (na_test rt tokens))"

definition normalizeNA :: "jsval \<Rightarrow> (jsval \<Rightarrow> exn + bool) \<Rightarrow> exn + jsval" where
  "normalizeNA v isNA = then_do (isNA v) (\<lambda>b. Inr (if b then JNull else v))"

text \<open>
  The NA policy of a run configuration, and the test the input handler builds from it:
  \<^verbatim>\<open>runCfg.naPolicy?.enabled ? mkNASet(runCfg.naPolicy.values || ["", "NA", "N/A"])
  : () => false\<close>.
\<close>

record na_policy =
  na_enabled :: jsval
  na_values :: "jsval list option"

definition default_na_values :: "jsval list" where
  "default_na_values = [JStr [], JStr ''NA'', JStr ''N/A'']"

definition never_NA :: "jsval \<Rightarrow> exn + bool" where
  "never_NA v = Inr False"

definition policy_isNA :: "js_runtime \<Rightarrow> na_policy option \<Rightarrow> exn + (jsval \<Rightarrow> exn + bool)" where
  "policy_isNA rt pol =
     (case pol of
        None \<Rightarrow> Inr never_NA
      | Some p \<Rightarrow>
          if truthy (na_enabled p)
          then mkNASet rt (Some (case na_values p of None \<Rightarrow> default_na_values | Some vs \<Rightarrow> vs))
          else Inr never_NA)"

text \<open>\<^verbatim>\<open>applyTransform(name, v)\<close>: a \<^verbatim>\<open>switch\<close> on the name, strict equality.\<close>

definition applyTransform :: "js_runtime \<Rightarrow> jsval \<Rightarrow> jsval \<Rightarrow> exn + jsval" where
  "applyTransform rt name v =
     (if name = JStr ''trim'' then
        (if nullish v then Inr v
         else then_do (js_String rt v) (\<lambda>s. Inr (JStr (js_trim rt s))))
      else if name = JStr ''lower'' then
        (if nullish v then Inr v
         else then_do (js_String rt v) (\<lambda>s. Inr (JStr (js_toLowerCase rt s))))
      else if name = JStr ''upper'' then
        (if nullish v then Inr v
         else then_do (js_String rt v) (\<lambda>s. Inr (JStr (js_toUpperCase rt s))))
      else if name = JStr ''number'' then
        (if nullish v then Inr JNull
         else then_do (js_String rt v) (\<lambda>s.
                if js_trim rt s = [] then Inr JNull
                else then_do (js_Number rt v) (\<lambda>n.
                       Inr (if isFinite n then JNum n else JNull))))
      else if name = JStr ''bool01'' then
        Inr (if truthy v then JNum (JFin 1) else JNum (JFin 0))
      else if name = JStr ''string'' then
        (if nullish v then Inr (JStr []) else then_do (js_String rt v) (\<lambda>s. Inr (JStr s)))
      else Inr v)"

section \<open>Objects\<close>

text \<open>
  An array index is a canonical decimal numeral below \<^verbatim>\<open>2^32 - 1\<close> (4294967295). \<^verbatim>\<open>Object.keys\<close>
  lists the array-index keys of an ordinary object first, in ascending order, then the
  other keys in the order they were created.
\<close>

definition digit_of :: "char \<Rightarrow> nat option" where
  "digit_of c =
     (let n = (of_char c :: nat) in if 48 \<le> n \<and> n \<le> 57 then Some (n - 48) else None)"

fun digits_value :: "nat \<Rightarrow> string \<Rightarrow> nat option" where
  "digits_value acc [] = Some acc"
| "digits_value acc (c # cs) =
     (case digit_of c of None \<Rightarrow> None | Some d \<Rightarrow> digits_value (10 * acc + d) cs)"

definition array_index :: "string \<Rightarrow> nat option" where
  "array_index k =
     (if k = [] \<or> (hd k = CHR ''0'' \<and> tl k \<noteq> []) then None
      else case digits_value 0 k of
             None \<Rightarrow> None
           | Some n \<Rightarrow> if n < 4294967295 then Some n else None)"

fun has_key :: "string \<Rightarrow> (string \<times> jsval) list \<Rightarrow> bool" where
  "has_key k [] = False"
| "has_key k (p # ps) = (fst p = k \<or> has_key k ps)"

fun replace_prop :: "string \<Rightarrow> jsval \<Rightarrow> (string \<times> jsval) list \<Rightarrow> (string \<times> jsval) list" where
  "replace_prop k v [] = []"
| "replace_prop k v (p # ps) = (if fst p = k then (k, v) # ps else p # replace_prop k v ps)"

fun insert_index :: "nat \<Rightarrow> string \<Rightarrow> jsval \<Rightarrow> (string \<times> jsval) list \<Rightarrow> (string \<times> jsval) list" where
  "insert_index n k v [] = [(k, v)]"
| "insert_index n k v (p # ps) =
     (case array_index (fst p) of
        None \<Rightarrow> (k, v) # p # ps
      | Some m \<Rightarrow> if m < n then p # insert_index n k v ps else (k, v) # p # ps)"

text \<open>
  Creating or overwriting an own data property (what an object literal and a spread do),
  and the assignment \<^verbatim>\<open>obj[k] = v\<close>. The two differ at the key \<^verbatim>\<open>__proto__\<close>: on
  an object with no own property of that name the assignment reaches the accessor of
  \<^verbatim>\<open>Object.prototype\<close>, which sets the prototype and creates no property. The
  prototype link is not part of a \<^typ>\<open>jsval\<close>.
\<close>

definition define_prop :: "string \<Rightarrow> jsval \<Rightarrow> (string \<times> jsval) list \<Rightarrow> (string \<times> jsval) list" where
  "define_prop k v ps =
     (if has_key k ps then replace_prop k v ps
      else case array_index k of
             None \<Rightarrow> ps @ [(k, v)]
           | Some n \<Rightarrow> insert_index n k v ps)"

definition assign_prop :: "string \<Rightarrow> jsval \<Rightarrow> (string \<times> jsval) list \<Rightarrow> (string \<times> jsval) list" where
  "assign_prop k v ps =
     (if k = ''__proto__'' \<and> \<not> has_key k ps then ps else define_prop k v ps)"

text \<open>The own enumerable properties a spread \<^verbatim>\<open>{...x}\<close> copies.\<close>

definition own_entries :: "jsval \<Rightarrow> (string \<times> jsval) list" where
  "own_entries x =
     (case x of
        JObj kvs \<Rightarrow> kvs
      | JArr xs \<Rightarrow> map (\<lambda>(i, y). (show_nat i, y)) (enumerate 0 xs)
      | JStr s \<Rightarrow> map (\<lambda>(i, c). (show_nat i, JStr [c])) (enumerate 0 s)
      | _ \<Rightarrow> [])"

text \<open>
  \<^verbatim>\<open>const keys = Object.keys(row); v = keys.length ? row[keys[0]] : undefined\<close>.
  \<^verbatim>\<open>Object.keys\<close> throws a TypeError on \<^verbatim>\<open>null\<close> and \<^verbatim>\<open>undefined\<close>.
\<close>

definition first_own_value :: "jsval \<Rightarrow> exn + jsval" where
  "first_own_value row =
     (case row of
        JUndef \<Rightarrow> Inl (Exn ''Cannot convert undefined or null to object'')
      | JNull \<Rightarrow> Inl (Exn ''Cannot convert undefined or null to object'')
      | JObj kvs \<Rightarrow> Inr (case kvs of [] \<Rightarrow> JUndef | p # _ \<Rightarrow> snd p)
      | JArr xs \<Rightarrow> Inr (case xs of [] \<Rightarrow> JUndef | y # _ \<Rightarrow> y)
      | JStr s \<Rightarrow> Inr (case s of [] \<Rightarrow> JUndef | c # _ \<Rightarrow> JStr [c])
      | _ \<Rightarrow> Inr JUndef)"

section \<open>The host\<close>

text \<open>
  Node-RED is the host of the node. Its state, of type \<^typ>\<open>'w\<close>, holds the message
  and the flow and global contexts; the node reads and writes it through the host's
  functions only, which are parameters of the model: \<^verbatim>\<open>RED.util.getMessageProperty\<close>,
  \<^verbatim>\<open>RED.util.getObjectProperty\<close>, \<^verbatim>\<open>RED.util.setMessageProperty\<close>, the
  \<^verbatim>\<open>get\<close> and \<^verbatim>\<open>set\<close> of the two contexts, \<^verbatim>\<open>process.env\<close>, and
  \<^verbatim>\<open>RED.util.prepareJSONataExpression\<close> followed by
  \<^verbatim>\<open>RED.util.evaluateJSONataExpression\<close>. Each of them but the environment may throw.
  \<^verbatim>\<open>msg_of\<close> is the message as a value.

  The object bound to \<^verbatim>\<open>root\<close> may be part of what a write changes (the default
  configuration reads its root at \<^verbatim>\<open>msg.data\<close> and writes under it), so a write is
  given the value of \<^verbatim>\<open>root\<close> and returns it as it is after the write, with the
  new state of the host.
\<close>

record 'w host =
  msg_of :: "'w \<Rightarrow> jsval"
  RED_getMessageProperty :: "'w \<Rightarrow> jsval \<Rightarrow> exn + jsval"
  RED_getObjectProperty :: "jsval \<Rightarrow> jsval \<Rightarrow> exn + jsval"
  RED_setMessageProperty :: "'w \<Rightarrow> jsval \<Rightarrow> jsval \<Rightarrow> jsval \<Rightarrow> exn + 'w \<times> jsval"
  flow_get :: "'w \<Rightarrow> jsval \<Rightarrow> exn + jsval"
  flow_set :: "'w \<Rightarrow> jsval \<Rightarrow> jsval \<Rightarrow> jsval \<Rightarrow> exn + 'w \<times> jsval"
  global_get :: "'w \<Rightarrow> jsval \<Rightarrow> exn + jsval"
  global_set :: "'w \<Rightarrow> jsval \<Rightarrow> jsval \<Rightarrow> jsval \<Rightarrow> exn + 'w \<times> jsval"
  process_env :: "string \<Rightarrow> jsval"
  RED_jsonata :: "'w \<Rightarrow> string \<Rightarrow> jsval \<Rightarrow> exn + jsval"

text \<open>The node's own \<^verbatim>\<open>getObjectProperty\<close>: the host's, with a throw caught.\<close>

definition getObjectProperty :: "'w host \<Rightarrow> jsval \<Rightarrow> jsval \<Rightarrow> jsval" where
  "getObjectProperty h obj prop =
     (case RED_getObjectProperty h obj prop of Inl e \<Rightarrow> JUndef | Inr v \<Rightarrow> v)"

text \<open>
  \<^verbatim>\<open>setTypedTarget(node, msg, type, path, value)\<close>; the first argument of the model's
  writes is the host's state, the second the value of \<^verbatim>\<open>root\<close>.
\<close>

definition setTypedTarget ::
  "'w host \<Rightarrow> 'w \<Rightarrow> jsval \<Rightarrow> jsval \<Rightarrow> jsval \<Rightarrow> jsval \<Rightarrow> exn + 'w \<times> jsval" where
  "setTypedTarget h w rootv ty path v =
     (if \<not> truthy path then Inr (w, rootv)
      else if ty = JStr ''flow'' then flow_set h w rootv path v
      else if ty = JStr ''global'' then global_set h w rootv path v
      else RED_setMessageProperty h w rootv path v)"

text \<open>
  \<^verbatim>\<open>jsonataEval(node, expr, data)\<close>; a rejected promise is the \<open>Inl\<close>. A throw of
  \<^verbatim>\<open>String(expr)\<close> is inside its \<^verbatim>\<open>try\<close> and rejects as a failed compilation
  does.
\<close>

definition jsonataEval :: "'w host \<Rightarrow> js_runtime \<Rightarrow> 'w \<Rightarrow> jsval \<Rightarrow> jsval \<Rightarrow> exn + jsval" where
  "jsonataEval h rt w expr data =
     (if nullish expr \<or> expr = JStr [] then Inr JUndef
      else then_do (js_String rt expr) (\<lambda>s. RED_jsonata h w s data))"

text \<open>
  \<^verbatim>\<open>evalTyped(node, msg, type, src, rowCtx)\<close>. The data of a JSONata expression is
  \<^verbatim>\<open>{ ...rowCtx, msg }\<close> when there is a row, the message otherwise. \<^verbatim>\<open>String(src)\<close>
  and \<^verbatim>\<open>Number(src)\<close> are evaluated with no \<^verbatim>\<open>try\<close> around them.
\<close>

definition data_root :: "'w host \<Rightarrow> 'w \<Rightarrow> jsval \<Rightarrow> jsval" where
  "data_root h w rowCtx =
     (if \<not> nullish rowCtx
      then JObj (define_prop ''msg'' (msg_of h w) (own_entries rowCtx))
      else msg_of h w)"

definition evalTyped ::
  "'w host \<Rightarrow> js_runtime \<Rightarrow> 'w \<Rightarrow> jsval \<Rightarrow> jsval \<Rightarrow> jsval \<Rightarrow> exn + jsval" where
  "evalTyped h rt w ty src rowCtx =
     (if ty = JStr ''msg'' then
        then_do (js_String rt src) (\<lambda>s. RED_getMessageProperty h w (JStr s))
      else if ty = JStr ''flow'' then
        then_do (js_String rt src) (\<lambda>s. flow_get h w (JStr s))
      else if ty = JStr ''global'' then
        then_do (js_String rt src) (\<lambda>s. global_get h w (JStr s))
      else if ty = JStr ''env'' then
        then_do (js_String rt src) (\<lambda>s. Inr (js_or (process_env h s) (JStr [])))
      else if ty = JStr ''path'' then
        then_do (js_String rt src) (\<lambda>s.
          Inr (getObjectProperty h (js_coalesce rowCtx (msg_of h w)) (JStr s)))
      else if ty = JStr ''jsonata'' then jsonataEval h rt w src (data_root h w rowCtx)
      else if ty = JStr ''str'' then
        then_do (js_String rt (js_coalesce src (JStr []))) (\<lambda>s. Inr (JStr s))
      else if ty = JStr ''num'' then then_do (js_Number rt src) (\<lambda>n. Inr (JNum n))
      else if ty = JStr ''bool'' then Inr (JBool (truthy src))
      else if ty = JStr ''json'' then
        (case src of
           JStr s \<Rightarrow> Inr (case js_JSON_parse rt s of Inl e \<Rightarrow> JUndef | Inr v \<Rightarrow> v)
         | _ \<Rightarrow> Inr src)
      else Inr src)"

section \<open>The run configuration\<close>

text \<open>
  The objects of the configuration, a field that is absent being \<^verbatim>\<open>undefined\<close>. The
  name of a rule is a string, as in the template of the node and in its documentation, or
  absent; a name of another type is not modelled. The field list of a rule is
  \<^verbatim>\<open>Array.isArray(rule.map) ? rule.map : []\<close>, its rule list is
  \<^verbatim>\<open>runCfg.rules || []\<close>; \<^verbatim>\<open>rule.aggregate\<close>, \<^verbatim>\<open>rule.output\<close>,
  \<^verbatim>\<open>runCfg.source\<close> and \<^verbatim>\<open>runCfg.naPolicy\<close> are objects or absent.
\<close>

record map_field =
  m_key :: jsval
  m_srcType :: jsval
  m_src :: jsval
  m_when :: jsval
  m_whenType :: jsval
  m_transform :: jsval

record agg_spec =
  agg_mode :: jsval
  agg_keyExpr :: jsval
  agg_keyExprType :: jsval
  agg_valueExpr :: jsval
  agg_valueExprType :: jsval

record out_spec =
  out_type :: jsval
  out_path :: jsval

record rule =
  r_name :: "string option"
  r_selectType :: jsval
  r_select :: jsval
  r_filterType :: jsval
  r_filter :: jsval
  r_map :: "map_field list"
  r_aggregate :: "agg_spec option"
  r_output :: "out_spec option"
  r_onEmpty :: jsval
  r_onError :: jsval



section \<open>The stages of a rule\<close>

text \<open>
  The local bindings of the input handler that change while it runs: the host's state,
  \<^verbatim>\<open>root\<close>, the arrays \<^verbatim>\<open>warnings\<close> and \<^verbatim>\<open>errors\<close> (those of
  \<^verbatim>\<open>msg.meta\<close> when the message comes with them, new empty ones otherwise), and the
  three counters. What the message came with may be any values, hence lists of values.
  The two arrays are kept apart from the host's state: an expression or an output path
  that reaches \<^verbatim>\<open>msg.meta.warnings\<close> or \<^verbatim>\<open>msg.meta.errors\<close> is not modelled.
\<close>

record 'w run_state =
  st_world :: 'w
  st_root :: jsval
  st_warnings :: "jsval list"
  st_errors :: "jsval list"
  ruleOK :: nat
  ruleWarn :: nat
  ruleErr :: nat

text \<open>
  The tag of a rule in every message: \<^verbatim>\<open>`[rule:${rule.name || rIndex}]`\<close>, the name
  when there is one and it is not empty, the index otherwise.
\<close>

definition rule_tag :: "nat \<Rightarrow> rule \<Rightarrow> string" where
  "rule_tag rIndex r =
     ''[rule:''
     @ (case r_name r of
          None \<Rightarrow> show_nat rIndex
        | Some n \<Rightarrow> if n \<noteq> [] then n else show_nat rIndex)
     @ '']''"

text \<open>Stage 1, select: the scope of the rule, or the error thrown.\<close>

definition select_scope :: "'w host \<Rightarrow> js_runtime \<Rightarrow> 'w \<Rightarrow> jsval \<Rightarrow> rule \<Rightarrow> exn + jsval" where
  "select_scope h rt w rootv r =
     (if r_selectType r = JStr ''jsonata'' then
        jsonataEval h rt w (js_or (r_select r) (JStr [])) rootv
      else if r_selectType r = JStr ''path'' then
        Inr (getObjectProperty h rootv (js_or (r_select r) (JStr [])))
      else Inr rootv)"

text \<open>
  \<^verbatim>\<open>if (!Array.isArray(scope)) { if (scope == null) scope = []; else ... }\<close>: the rows
  of the scope, or nothing when it is neither an array nor \<^verbatim>\<open>null\<close> nor
  \<^verbatim>\<open>undefined\<close>.
\<close>

fun scope_rows :: "jsval \<Rightarrow> jsval list option" where
  "scope_rows (JArr xs) = Some xs"
| "scope_rows JUndef = Some []"
| "scope_rows JNull = Some []"
| "scope_rows v = None"

text \<open>
  Stage 2, filter. The loop over the rows carries \<^verbatim>\<open>out\<close> and \<^verbatim>\<open>warnings\<close>.
  Whatever the evaluation throws is caught, and the message of the warning is made of
  strings, so the stage always completes.
\<close>

definition filter_row ::
  "'w host \<Rightarrow> js_runtime \<Rightarrow> 'w \<Rightarrow> string \<Rightarrow> rule \<Rightarrow> jsval \<Rightarrow>
   jsval list \<times> jsval list \<Rightarrow> jsval list \<times> jsval list" where
  "filter_row h rt w tag r row acc =
     (case evalTyped h rt w (js_or (r_filterType r) (JStr ''jsonata'')) (r_filter r) row of
        Inl e \<Rightarrow> (fst acc, snd acc @ [JStr (tag @ '' filter error on row: '' @ exn_message e)])
      | Inr keep \<Rightarrow> (if truthy keep then fst acc @ [row] else fst acc, snd acc))"

fun filter_rows ::
  "'w host \<Rightarrow> js_runtime \<Rightarrow> 'w \<Rightarrow> string \<Rightarrow> rule \<Rightarrow> jsval list \<Rightarrow>
   jsval list \<times> jsval list \<Rightarrow> jsval list \<times> jsval list" where
  "filter_rows h rt w tag r [] acc = acc"
| "filter_rows h rt w tag r (row # rows) acc =
     filter_rows h rt w tag r rows (filter_row h rt w tag r row acc)"

definition filter_stage ::
  "'w host \<Rightarrow> js_runtime \<Rightarrow> 'w \<Rightarrow> string \<Rightarrow> rule \<Rightarrow> jsval list \<Rightarrow> jsval list \<Rightarrow>
   jsval list \<times> jsval list" where
  "filter_stage h rt w tag r scope ws =
     (if truthy (r_filter r) then filter_rows h rt w tag r scope ([], ws) else (scope, ws))"

text \<open>
  Stage 3, map. A stage that can leave the loop over the rules by a throw returns
  \<open>Inl\<close> of what is thrown, with \<^verbatim>\<open>warnings\<close> as they are then, or \<open>Inr\<close> of
  its result, with \<^verbatim>\<open>warnings\<close>.

  One field of one row. \<open>field_value\<close> is the \<^verbatim>\<open>try\<close> block up to the value to
  assign: the source is evaluated, normalized and transformed, and each of the three may
  throw. \<open>try_assign\<close> is the whole block: \<^verbatim>\<open>if (m.key) rec[m.key] = v\<close> turns the
  key into a property key, which throws when the key has no string form. The
  \<^verbatim>\<open>catch\<close> builds its message with \<^verbatim>\<open>${m.key}\<close>: when that throws, nothing is
  pushed and the throw leaves the loops.
\<close>

definition field_value ::
  "'w host \<Rightarrow> js_runtime \<Rightarrow> 'w \<Rightarrow> (jsval \<Rightarrow> exn + bool) \<Rightarrow> jsval \<Rightarrow> map_field \<Rightarrow> exn + jsval" where
  "field_value h rt w isNA row m =
     then_do (evalTyped h rt w (js_or (m_srcType m) (JStr ''jsonata'')) (m_src m) row) (\<lambda>v0.
     then_do (normalizeNA v0 isNA) (\<lambda>v1.
     applyTransform rt (js_or (m_transform m) (JStr ''none'')) v1))"

definition try_assign ::
  "'w host \<Rightarrow> js_runtime \<Rightarrow> 'w \<Rightarrow> (jsval \<Rightarrow> exn + bool) \<Rightarrow> jsval \<Rightarrow> map_field \<Rightarrow>
   (string \<times> jsval) list \<Rightarrow> exn + (string \<times> jsval) list" where
  "try_assign h rt w isNA row m rec =
     then_do (field_value h rt w isNA row m) (\<lambda>v.
       if truthy (m_key m)
       then then_do (js_String rt (m_key m)) (\<lambda>k. Inr (assign_prop k v rec))
       else Inr rec)"

definition assign_field ::
  "'w host \<Rightarrow> js_runtime \<Rightarrow> 'w \<Rightarrow> (jsval \<Rightarrow> exn + bool) \<Rightarrow> string \<Rightarrow> jsval \<Rightarrow> map_field \<Rightarrow>
   (string \<times> jsval) list \<times> jsval list \<Rightarrow>
   exn \<times> jsval list + (string \<times> jsval) list \<times> jsval list" where
  "assign_field h rt w isNA tag row m acc =
     (case try_assign h rt w isNA row m (fst acc) of
        Inr rec \<Rightarrow> Inr (rec, snd acc)
      | Inl e \<Rightarrow>
          (case js_String rt (m_key m) of
             Inl e2 \<Rightarrow> Inl (e2, snd acc)
           | Inr k \<Rightarrow>
               Inr (fst acc,
                    snd acc @ [JStr (tag @ '' map error for key='' @ k @ '': ''
                                     @ exn_message e)])))"

text \<open>The optional \<^verbatim>\<open>when\<close> gate, then the field.\<close>

definition map_one_field ::
  "'w host \<Rightarrow> js_runtime \<Rightarrow> 'w \<Rightarrow> (jsval \<Rightarrow> exn + bool) \<Rightarrow> string \<Rightarrow> jsval \<Rightarrow> map_field \<Rightarrow>
   (string \<times> jsval) list \<times> jsval list \<Rightarrow>
   exn \<times> jsval list + (string \<times> jsval) list \<times> jsval list" where
  "map_one_field h rt w isNA tag row m acc =
     (if truthy (m_when m) then
        (case evalTyped h rt w (js_or (m_whenType m) (JStr ''jsonata'')) (m_when m) row of
           Inl e \<Rightarrow> Inr (fst acc, snd acc @ [JStr (tag @ '' when error: '' @ exn_message e)])
         | Inr wv \<Rightarrow> if \<not> truthy wv then Inr acc else assign_field h rt w isNA tag row m acc)
      else assign_field h rt w isNA tag row m acc)"

text \<open>The loop over the fields carries the record \<^verbatim>\<open>rec\<close> and \<^verbatim>\<open>warnings\<close>.\<close>

fun map_fields ::
  "'w host \<Rightarrow> js_runtime \<Rightarrow> 'w \<Rightarrow> (jsval \<Rightarrow> exn + bool) \<Rightarrow> string \<Rightarrow> jsval \<Rightarrow> map_field list \<Rightarrow>
   (string \<times> jsval) list \<times> jsval list \<Rightarrow>
   exn \<times> jsval list + (string \<times> jsval) list \<times> jsval list" where
  "map_fields h rt w isNA tag row [] acc = Inr acc"
| "map_fields h rt w isNA tag row (m # ms) acc =
     (case map_one_field h rt w isNA tag row m acc of
        Inl failure \<Rightarrow> Inl failure
      | Inr acc' \<Rightarrow> map_fields h rt w isNA tag row ms acc')"

text \<open>
  One row: \<^verbatim>\<open>rec = {}\<close>, the fields, then \<^verbatim>\<open>if (include) mapped.push(rec)\<close>, where
  \<^verbatim>\<open>include\<close> is \<^verbatim>\<open>true\<close> from its declaration on. The loop over the rows carries
  \<^verbatim>\<open>mapped\<close> and \<^verbatim>\<open>warnings\<close>.
\<close>

definition map_row ::
  "'w host \<Rightarrow> js_runtime \<Rightarrow> 'w \<Rightarrow> (jsval \<Rightarrow> exn + bool) \<Rightarrow> string \<Rightarrow> map_field list \<Rightarrow> jsval \<Rightarrow>
   jsval list \<times> jsval list \<Rightarrow> exn \<times> jsval list + jsval list \<times> jsval list" where
  "map_row h rt w isNA tag maps row acc =
     (case map_fields h rt w isNA tag row maps ([], snd acc) of
        Inl failure \<Rightarrow> Inl failure
      | Inr res \<Rightarrow> Inr (fst acc @ [JObj (fst res)], snd res))"

fun map_rows ::
  "'w host \<Rightarrow> js_runtime \<Rightarrow> 'w \<Rightarrow> (jsval \<Rightarrow> exn + bool) \<Rightarrow> string \<Rightarrow> map_field list \<Rightarrow> jsval list \<Rightarrow>
   jsval list \<times> jsval list \<Rightarrow> exn \<times> jsval list + jsval list \<times> jsval list" where
  "map_rows h rt w isNA tag maps [] acc = Inr acc"
| "map_rows h rt w isNA tag maps (row # rows) acc =
     (case map_row h rt w isNA tag maps row acc of
        Inl failure \<Rightarrow> Inl failure
      | Inr acc' \<Rightarrow> map_rows h rt w isNA tag maps rows acc')"

text \<open>
  With no field, \<^verbatim>\<open>mapped.push(...rows)\<close> passes every row as an argument of one
  call, outside every \<^verbatim>\<open>try\<close>: with more rows than a call can take it throws a
  RangeError.
\<close>

definition push_spread :: "js_runtime \<Rightarrow> jsval list \<Rightarrow> jsval list \<Rightarrow> exn + jsval list" where
  "push_spread rt mapped rows =
     (if length rows \<le> js_max_args rt then Inr (mapped @ rows)
      else Inl (Exn ''Maximum call stack size exceeded''))"

definition map_stage ::
  "'w host \<Rightarrow> js_runtime \<Rightarrow> 'w \<Rightarrow> (jsval \<Rightarrow> exn + bool) \<Rightarrow> string \<Rightarrow> map_field list \<Rightarrow> jsval list \<Rightarrow>
   jsval list \<Rightarrow> exn \<times> jsval list + jsval list \<times> jsval list" where
  "map_stage h rt w isNA tag maps rows ws =
     (if length maps = 0 then
        (case push_spread rt [] rows of
           Inl e \<Rightarrow> Inl (e, ws)
         | Inr mapped \<Rightarrow> Inr (mapped, ws))
      else map_rows h rt w isNA tag maps rows ([], ws))"

text \<open>
  Stage 4, aggregate. \<^verbatim>\<open>objectByKey\<close>: the loop carries \<^verbatim>\<open>obj\<close> and
  \<^verbatim>\<open>warnings\<close>. The key of a record is \<^verbatim>\<open>String(k ?? "")\<close> of what the key
  expression evaluates to on the record; both steps are in the \<^verbatim>\<open>try\<close>.
\<close>

definition default_agg :: agg_spec where
  "default_agg =
     \<lparr>agg_mode = JStr ''array'', agg_keyExpr = JUndef, agg_keyExprType = JUndef,
      agg_valueExpr = JUndef, agg_valueExprType = JUndef\<rparr>"

definition record_key ::
  "'w host \<Rightarrow> js_runtime \<Rightarrow> 'w \<Rightarrow> agg_spec \<Rightarrow> jsval \<Rightarrow> exn + string" where
  "record_key h rt w agg row =
     then_do
       (evalTyped h rt w (js_or (agg_keyExprType agg) (JStr ''jsonata'')) (agg_keyExpr agg) row)
       (\<lambda>k. js_String rt (js_coalesce k (JStr [])))"

definition objectByKey_row ::
  "'w host \<Rightarrow> js_runtime \<Rightarrow> 'w \<Rightarrow> string \<Rightarrow> agg_spec \<Rightarrow> jsval \<Rightarrow>
   (string \<times> jsval) list \<times> jsval list \<Rightarrow> (string \<times> jsval) list \<times> jsval list" where
  "objectByKey_row h rt w tag agg row acc =
     (case record_key h rt w agg row of
        Inl e \<Rightarrow>
          (fst acc, snd acc @ [JStr (tag @ '' objectByKey keyExpr error: '' @ exn_message e)])
      | Inr k \<Rightarrow> (assign_prop k row (fst acc), snd acc))"

fun objectByKey_rows ::
  "'w host \<Rightarrow> js_runtime \<Rightarrow> 'w \<Rightarrow> string \<Rightarrow> agg_spec \<Rightarrow> jsval list \<Rightarrow>
   (string \<times> jsval) list \<times> jsval list \<Rightarrow> (string \<times> jsval) list \<times> jsval list" where
  "objectByKey_rows h rt w tag agg [] acc = acc"
| "objectByKey_rows h rt w tag agg (row # rows) acc =
     objectByKey_rows h rt w tag agg rows (objectByKey_row h rt w tag agg row acc)"

text \<open>
  \<^verbatim>\<open>set\<close>: a JavaScript \<^verbatim>\<open>Set\<close> of strings keeps each string once, in the order of
  first insertion; the loop carries it with \<^verbatim>\<open>warnings\<close>. The \<^verbatim>\<open>try\<close> block of a
  record: its value (of the value expression when there is one, of its first own property
  otherwise), the NA normalization, and
  \<^verbatim>\<open>if (v != null && String(v).trim() !== "") outSet.add(String(v))\<close>; each of the
  three may throw.
\<close>

definition set_add :: "string \<Rightarrow> string list \<Rightarrow> string list" where
  "set_add s outSet = (if s \<in> set outSet then outSet else outSet @ [s])"

definition set_value :: "'w host \<Rightarrow> js_runtime \<Rightarrow> 'w \<Rightarrow> agg_spec \<Rightarrow> jsval \<Rightarrow> exn + jsval" where
  "set_value h rt w agg row =
     (if truthy (agg_valueExpr agg)
      then evalTyped h rt w (js_or (agg_valueExprType agg) (JStr ''jsonata'')) (agg_valueExpr agg) row
      else first_own_value row)"

definition try_add ::
  "'w host \<Rightarrow> js_runtime \<Rightarrow> 'w \<Rightarrow> (jsval \<Rightarrow> exn + bool) \<Rightarrow> agg_spec \<Rightarrow> jsval \<Rightarrow>
   string list \<Rightarrow> exn + string list" where
  "try_add h rt w isNA agg row outSet =
     then_do (set_value h rt w agg row) (\<lambda>v0.
     then_do (normalizeNA v0 isNA) (\<lambda>v.
       if nullish v then Inr outSet
       else then_do (js_String rt v) (\<lambda>s.
              Inr (if js_trim rt s \<noteq> [] then set_add s outSet else outSet))))"

definition set_row ::
  "'w host \<Rightarrow> js_runtime \<Rightarrow> 'w \<Rightarrow> (jsval \<Rightarrow> exn + bool) \<Rightarrow> string \<Rightarrow> agg_spec \<Rightarrow> jsval \<Rightarrow>
   string list \<times> jsval list \<Rightarrow> string list \<times> jsval list" where
  "set_row h rt w isNA tag agg row acc =
     (case try_add h rt w isNA agg row (fst acc) of
        Inl e \<Rightarrow> (fst acc, snd acc @ [JStr (tag @ '' set valueExpr error: '' @ exn_message e)])
      | Inr outSet \<Rightarrow> (outSet, snd acc))"

fun set_rows ::
  "'w host \<Rightarrow> js_runtime \<Rightarrow> 'w \<Rightarrow> (jsval \<Rightarrow> exn + bool) \<Rightarrow> string \<Rightarrow> agg_spec \<Rightarrow> jsval list \<Rightarrow>
   string list \<times> jsval list \<Rightarrow> string list \<times> jsval list" where
  "set_rows h rt w isNA tag agg [] acc = acc"
| "set_rows h rt w isNA tag agg (row # rows) acc =
     set_rows h rt w isNA tag agg rows (set_row h rt w isNA tag agg row acc)"

text \<open>
  The mode is \<^verbatim>\<open>agg.mode || "array"\<close>; the result comes with \<^verbatim>\<open>warnings\<close>. No
  aggregator lets a throw out.
\<close>

definition agg_of :: "rule \<Rightarrow> agg_spec" where
  "agg_of r = (case r_aggregate r of None \<Rightarrow> default_agg | Some a \<Rightarrow> a)"

definition mode_of :: "rule \<Rightarrow> jsval" where
  "mode_of r = js_or (agg_mode (agg_of r)) (JStr ''array'')"

definition aggregate ::
  "'w host \<Rightarrow> js_runtime \<Rightarrow> 'w \<Rightarrow> (jsval \<Rightarrow> exn + bool) \<Rightarrow> string \<Rightarrow> rule \<Rightarrow> jsval list \<Rightarrow>
   jsval list \<Rightarrow> jsval \<times> jsval list" where
  "aggregate h rt w isNA tag r mapped ws =
     (if mode_of r = JStr ''array'' then (JArr mapped, ws)
      else if mode_of r = JStr ''first'' then
        ((case mapped of [] \<Rightarrow> JNull | x # _ \<Rightarrow> x), ws)
      else if mode_of r = JStr ''count'' then (JNum (JFin (of_nat (length mapped))), ws)
      else if mode_of r = JStr ''objectByKey'' then
        (let res = objectByKey_rows h rt w tag (agg_of r) mapped ([], ws)
         in (JObj (fst res), snd res))
      else if mode_of r = JStr ''set'' then
        (let res = set_rows h rt w isNA tag (agg_of r) mapped ([], ws)
         in (JArr (map JStr (fst res)), snd res))
      else (JArr mapped, ws))"

text \<open>
  Stages 2 to 4 on the rows of the scope: the result to write, with \<^verbatim>\<open>warnings\<close>,
  or the throw of the map stage.
\<close>

definition rule_result ::
  "'w host \<Rightarrow> js_runtime \<Rightarrow> 'w \<Rightarrow> (jsval \<Rightarrow> exn + bool) \<Rightarrow> string \<Rightarrow> rule \<Rightarrow> jsval list \<Rightarrow>
   jsval list \<Rightarrow> exn \<times> jsval list + jsval \<times> jsval list" where
  "rule_result h rt w isNA tag r scope ws =
     (let filtered = filter_stage h rt w tag r scope ws
      in case map_stage h rt w isNA tag (r_map r) (fst filtered) (snd filtered) of
           Inl failure \<Rightarrow> Inl failure
         | Inr mapped \<Rightarrow> Inr (aggregate h rt w isNA tag r (fst mapped) (snd mapped)))"

text \<open>Stage 5, output: the type and the path of the target.\<close>

definition out_type_of :: "rule \<Rightarrow> jsval" where
  "out_type_of r =
     (case r_output r of None \<Rightarrow> JStr ''msg'' | Some out \<Rightarrow> js_or (out_type out) (JStr ''msg''))"

definition out_path_of :: "nat \<Rightarrow> rule \<Rightarrow> jsval" where
  "out_path_of rIndex r =
     (let dflt = JStr (''extract.'' @ show_nat rIndex)
      in case r_output r of None \<Rightarrow> dflt | Some out \<Rightarrow> js_or (out_path out) dflt)"

text \<open>Stage 6, empty handling.\<close>

definition is_empty_result :: "jsval \<Rightarrow> jsval \<Rightarrow> bool" where
  "is_empty_result mode result =
     (if mode = JStr ''count'' then result = JNum (JFin 0)
      else if mode = JStr ''first'' then nullish result
      else case result of
             JArr xs \<Rightarrow> length xs = 0
           | JObj kvs \<Rightarrow> length (map fst kvs) = 0
           | _ \<Rightarrow> nullish result)"

definition handle_empty :: "string \<Rightarrow> rule \<Rightarrow> bool \<Rightarrow> 'w run_state \<Rightarrow> 'w run_state" where
  "handle_empty tag r is_empty st =
     (if is_empty then
        (if r_onEmpty r = JStr ''error'' then
           st\<lparr>st_errors := st_errors st @ [JStr (tag @ '' produced empty result'')],
              ruleErr := ruleErr st + 1\<rparr>
         else if r_onEmpty r = JStr ''warn'' \<or> \<not> truthy (r_onEmpty r) then
           st\<lparr>st_warnings := st_warnings st @ [JStr (tag @ '' produced empty result'')],
              ruleWarn := ruleWarn st + 1\<rparr>
         else st\<lparr>ruleOK := ruleOK st + 1\<rparr>)
      else st\<lparr>ruleOK := ruleOK st + 1\<rparr>)"

section \<open>The loop over the rules and the run\<close>

text \<open>
  One turn of the loop over the rules ends in \<^verbatim>\<open>break\<close>, or goes on to the next
  rule (a \<^verbatim>\<open>continue\<close>, or the end of the body). A throw of the map stage or of the
  output write is not caught in the loop: it leaves it, with the bindings as they are
  then.
\<close>

datatype 'a loop_ctl = Break 'a | Continue 'a

definition select_error :: "rule \<Rightarrow> string \<Rightarrow> 'w run_state \<Rightarrow> 'w run_state loop_ctl" where
  "select_error r message st =
     (let st' = st\<lparr>st_errors := st_errors st @ [JStr message], ruleErr := ruleErr st + 1\<rparr>
      in if r_onError r = JStr ''stop'' then Break st' else Continue st')"

definition rule_step ::
  "'w host \<Rightarrow> js_runtime \<Rightarrow> (jsval \<Rightarrow> exn + bool) \<Rightarrow> nat \<Rightarrow> rule \<Rightarrow> 'w run_state \<Rightarrow>
   exn \<times> 'w run_state + 'w run_state loop_ctl" where
  "rule_step h rt isNA rIndex r st =
     (let tag = rule_tag rIndex r in
      case select_scope h rt (st_world st) (st_root st) r of
        Inl e \<Rightarrow> Inr (select_error r (tag @ '' select evaluation failed: '' @ exn_message e) st)
      | Inr scope \<Rightarrow>
          (case scope_rows scope of
             None \<Rightarrow> Inr (select_error r (tag @ '' select did not resolve to an array'') st)
           | Some rows \<Rightarrow>
               (case rule_result h rt (st_world st) isNA tag r rows (st_warnings st) of
                  Inl failure \<Rightarrow> Inl (fst failure, st\<lparr>st_warnings := snd failure\<rparr>)
                | Inr res \<Rightarrow>
                    (let st1 = st\<lparr>st_warnings := snd res\<rparr>
                     in case setTypedTarget h (st_world st) (st_root st) (out_type_of r)
                               (out_path_of rIndex r) (fst res) of
                          Inl e \<Rightarrow> Inl (e, st1)
                        | Inr wr \<Rightarrow>
                            Inr (Continue
                              (handle_empty tag r (is_empty_result (mode_of r) (fst res))
                                 (st1\<lparr>st_world := fst wr, st_root := snd wr\<rparr>)))))))"

fun run_rules ::
  "'w host \<Rightarrow> js_runtime \<Rightarrow> (jsval \<Rightarrow> exn + bool) \<Rightarrow> nat \<Rightarrow> rule list \<Rightarrow> 'w run_state \<Rightarrow>
   exn \<times> 'w run_state + 'w run_state" where
  "run_rules h rt isNA rIndex [] st = Inr st"
| "run_rules h rt isNA rIndex (r # rs) st =
     (case rule_step h rt isNA rIndex r st of
        Inl failure \<Rightarrow> Inl failure
      | Inr (Break st') \<Rightarrow> Inr st'
      | Inr (Continue st') \<Rightarrow> run_rules h rt isNA (Suc rIndex) rs st')"




text \<open>
  The input handler, from the bindings of \<^verbatim>\<open>warnings\<close> and \<^verbatim>\<open>errors\<close> on: the
  root, the NA test, the rules, the summary. A run that completes returns the final
  bindings and the summary; a throw outside the \<^verbatim>\<open>try\<close> blocks of a rule reaches the
  outer \<^verbatim>\<open>catch\<close>, which pushes \<^verbatim>\<open>`[engine] ${err.message}`\<close> on \<^verbatim>\<open>errors\<close> and
  completes with the error.
\<close>

definition initial_state :: "'w \<Rightarrow> jsval \<Rightarrow> jsval list \<Rightarrow> jsval list \<Rightarrow> 'w run_state" where
  "initial_state w rootv warnings errors =
     \<lparr>st_world = w, st_root = rootv, st_warnings = warnings, st_errors = errors,
      ruleOK = 0, ruleWarn = 0, ruleErr = 0\<rparr>"



section \<open>A small runtime and host for the examples\<close>

text \<open>
  The theorems below hold for every runtime and every host. The examples run on a small
  instance of each, right on the values they use (ASCII strings, whole numbers, objects
  read by dotted paths): strings are trimmed of ASCII white space and change case on
  ASCII letters; a finite number that is not whole is printed as a quotient, a numeral
  with a sign or a fraction is not parsed. \<^verbatim>\<open>String\<close> and \<^verbatim>\<open>Number\<close> throw the
  TypeError of the language on an object with an own property \<^verbatim>\<open>toString\<close> and on an
  array that holds one; a call takes 125000 arguments at most.
\<close>

definition is_space :: "char \<Rightarrow> bool" where
  "is_space c \<longleftrightarrow> (of_char c :: nat) \<in> {9, 10, 11, 12, 13, 32}"

definition stub_trim :: "string \<Rightarrow> string" where
  "stub_trim s = rev (dropWhile is_space (rev (dropWhile is_space s)))"

definition lower_char :: "char \<Rightarrow> char" where
  "lower_char c =
     (let n = (of_char c :: nat) in if 65 \<le> n \<and> n \<le> 90 then char_of (n + 32) else c)"

definition upper_char :: "char \<Rightarrow> char" where
  "upper_char c =
     (let n = (of_char c :: nat) in if 97 \<le> n \<and> n \<le> 122 then char_of (n - 32) else c)"

definition show_int :: "int \<Rightarrow> string" where
  "show_int i = (if i < 0 then CHR ''-'' # show_nat (nat (- i)) else show_nat (nat i))"

definition show_num :: "jsnum \<Rightarrow> string" where
  "show_num n =
     (case n of
        JNaN \<Rightarrow> ''NaN''
      | JPosInf \<Rightarrow> ''Infinity''
      | JNegInf \<Rightarrow> ''-Infinity''
      | JFin q \<Rightarrow>
          (let nd = quotient_of q
           in if snd nd = 1 then show_int (fst nd)
              else show_int (fst nd) @ ''/'' @ show_int (snd nd)))"

definition type_error :: exn where
  "type_error = Exn ''Cannot convert object to primitive value''"

fun join_comma :: "(exn + string) list \<Rightarrow> exn + string" where
  "join_comma [] = Inr []"
| "join_comma [x] = x"
| "join_comma (x # y # ys) =
     then_do x (\<lambda>s. then_do (join_comma (y # ys)) (\<lambda>t. Inr (s @ '','' @ t)))"

fun stub_String :: "jsval \<Rightarrow> exn + string" where
  "stub_String JUndef = Inr ''undefined''"
| "stub_String JNull = Inr ''null''"
| "stub_String (JBool b) = Inr (if b then ''true'' else ''false'')"
| "stub_String (JNum n) = Inr (show_num n)"
| "stub_String (JStr s) = Inr s"
| "stub_String (JArr xs) =
     join_comma (map (\<lambda>x. if x = JUndef \<or> x = JNull then Inr [] else stub_String x) xs)"
| "stub_String (JObj kvs) =
     (if has_key ''toString'' kvs then Inl type_error else Inr ''[object Object]'')"

definition parse_number :: "string \<Rightarrow> jsnum" where
  "parse_number s =
     (case digits_value 0 (stub_trim s) of None \<Rightarrow> JNaN | Some n \<Rightarrow> JFin (of_nat n))"

definition stub_Number :: "jsval \<Rightarrow> exn + jsnum" where
  "stub_Number v =
     (case v of
        JUndef \<Rightarrow> Inr JNaN
      | JNull \<Rightarrow> Inr (JFin 0)
      | JBool b \<Rightarrow> Inr (JFin (if b then 1 else 0))
      | JNum n \<Rightarrow> Inr n
      | JStr s \<Rightarrow> Inr (parse_number s)
      | _ \<Rightarrow> then_do (stub_String v) (\<lambda>s. Inr (parse_number s)))"

definition stub_JSON_parse :: "string \<Rightarrow> exn + jsval" where
  "stub_JSON_parse s =
     (let t = stub_trim s in
      if t = ''null'' then Inr JNull
      else if t = ''true'' then Inr (JBool True)
      else if t = ''false'' then Inr (JBool False)
      else if t = [] then Inl (Exn ''Unexpected end of JSON input'')
      else case digits_value 0 t of
             None \<Rightarrow> Inl (Exn ''Unexpected token'')
           | Some n \<Rightarrow> Inr (JNum (JFin (of_nat n))))"

definition stub_rt :: js_runtime where
  "stub_rt =
     \<lparr>js_String = stub_String, js_Number = stub_Number, js_trim = stub_trim,
      js_toLowerCase = map lower_char, js_toUpperCase = map upper_char,
      js_JSON_parse = stub_JSON_parse, js_max_args = 125000\<rparr>"

text \<open>
  The host of the examples. A property expression is a dotted path of names; reading
  the empty expression, or a property of \<^verbatim>\<open>null\<close> or \<^verbatim>\<open>undefined\<close>, throws, as
  \<^verbatim>\<open>RED.util.getMessageProperty\<close> does. A JSONata expression is \<^verbatim>\<open>$\<close>,
  \<^verbatim>\<open>$error()\<close>, or a dotted path, which yields \<^verbatim>\<open>undefined\<close> where it leads
  nowhere. A context is a flat table. The root shares nothing with what is written.
\<close>

record stub_world =
  w_msg :: jsval
  w_flow :: "(string \<times> jsval) list"
  w_global :: "(string \<times> jsval) list"

fun split_dots :: "string \<Rightarrow> string \<Rightarrow> string list" where
  "split_dots cur [] = [cur]"
| "split_dots cur (c # cs) =
     (if c = CHR ''.'' then cur # split_dots [] cs else split_dots (cur @ [c]) cs)"

definition get_own :: "jsval \<Rightarrow> string \<Rightarrow> jsval" where
  "get_own obj k =
     (case obj of
        JObj kvs \<Rightarrow> (case map_of kvs k of None \<Rightarrow> JUndef | Some v \<Rightarrow> v)
      | _ \<Rightarrow> JUndef)"

fun walk_strict :: "jsval \<Rightarrow> string list \<Rightarrow> exn + jsval" where
  "walk_strict v [] = Inr v"
| "walk_strict v (k # ks) =
     (if v = JUndef \<or> v = JNull
      then Inl (Exn (''Cannot read properties of ''
                     @ (if v = JNull then ''null'' else ''undefined'') @ '' (reading ''
                     @ [CHR 0x27] @ k @ [CHR 0x27] @ '')''))
      else walk_strict (get_own v k) ks)"

fun walk_lenient :: "jsval \<Rightarrow> string list \<Rightarrow> jsval" where
  "walk_lenient v [] = v"
| "walk_lenient v (k # ks) = walk_lenient (get_own v k) ks"

fun write_path :: "jsval \<Rightarrow> string list \<Rightarrow> jsval \<Rightarrow> jsval" where
  "write_path obj [] v = v"
| "write_path obj (k # ks) v =
     JObj (define_prop k (write_path (get_own obj k) ks v)
             (case obj of JObj kvs \<Rightarrow> kvs | _ \<Rightarrow> []))"

definition stub_getObjectProperty :: "jsval \<Rightarrow> jsval \<Rightarrow> exn + jsval" where
  "stub_getObjectProperty obj expr =
     (case expr of
        JStr p \<Rightarrow>
          if p = [] then Inl (Exn ''Invalid property expression: zero-length'')
          else walk_strict obj (split_dots [] p)
      | _ \<Rightarrow> Inl (Exn ''Invalid property expression''))"

definition stub_setMessageProperty ::
  "stub_world \<Rightarrow> jsval \<Rightarrow> jsval \<Rightarrow> jsval \<Rightarrow> exn + stub_world \<times> jsval" where
  "stub_setMessageProperty w rootv expr v =
     (case expr of
        JStr p \<Rightarrow>
          if p = [] then Inl (Exn ''Invalid property expression: zero-length'')
          else Inr (w\<lparr>w_msg := write_path (w_msg w) (split_dots [] p) v\<rparr>, rootv)
      | _ \<Rightarrow> Inl (Exn ''Invalid property expression''))"

definition table_get :: "(string \<times> jsval) list \<Rightarrow> jsval \<Rightarrow> exn + jsval" where
  "table_get tbl expr =
     (case expr of
        JStr p \<Rightarrow> Inr (case map_of tbl p of None \<Rightarrow> JUndef | Some v \<Rightarrow> v)
      | _ \<Rightarrow> Inl (Exn ''Invalid context key''))"

definition stub_jsonata :: "stub_world \<Rightarrow> string \<Rightarrow> jsval \<Rightarrow> exn + jsval" where
  "stub_jsonata w expr data =
     (if expr = ''$error()'' then Inl (Exn ''$error() function evaluated'')
      else if expr = ''$'' then Inr data
      else Inr (walk_lenient data (split_dots [] expr)))"

definition stub_host :: "stub_world host" where
  "stub_host =
     \<lparr>msg_of = w_msg,
      RED_getMessageProperty = (\<lambda>w expr. stub_getObjectProperty (w_msg w) expr),
      RED_getObjectProperty = stub_getObjectProperty,
      RED_setMessageProperty = stub_setMessageProperty,
      flow_get = (\<lambda>w expr. table_get (w_flow w) expr),
      flow_set = (\<lambda>w rootv expr v.
        case expr of
          JStr p \<Rightarrow> Inr (w\<lparr>w_flow := define_prop p v (w_flow w)\<rparr>, rootv)
        | _ \<Rightarrow> Inl (Exn ''Invalid context key'')),
      global_get = (\<lambda>w expr. table_get (w_global w) expr),
      global_set = (\<lambda>w rootv expr v.
        case expr of
          JStr p \<Rightarrow> Inr (w\<lparr>w_global := define_prop p v (w_global w)\<rparr>, rootv)
        | _ \<Rightarrow> Inl (Exn ''Invalid context key'')),
      process_env = (\<lambda>k. JUndef),
      RED_jsonata = stub_jsonata\<rparr>"

section \<open>Notions the properties are stated with\<close>

text \<open>
  Whether the filter keeps a row: its expression evaluates, to a truthy value.
\<close>

definition row_kept :: "'w host \<Rightarrow> js_runtime \<Rightarrow> 'w \<Rightarrow> rule \<Rightarrow> jsval \<Rightarrow> bool" where
  "row_kept h rt w r row =
     (case evalTyped h rt w (js_or (r_filterType r) (JStr ''jsonata'')) (r_filter r) row of
        Inl e \<Rightarrow> False
      | Inr keep \<Rightarrow> truthy keep)"

text \<open>
  What one record means for the \<^verbatim>\<open>set\<close> aggregator, read off the code apart from
  the loop: its value is that of the value expression on the record when the
  configuration has one, and that of the first own property of the record otherwise; it
  counts with its string form when it is neither NA, \<^verbatim>\<open>null\<close>, \<^verbatim>\<open>undefined\<close> nor
  blank once trimmed; it fails when the value, the NA test or the string form throws.
\<close>

definition set_outcome ::
  "'w host \<Rightarrow> js_runtime \<Rightarrow> 'w \<Rightarrow> (jsval \<Rightarrow> exn + bool) \<Rightarrow> agg_spec \<Rightarrow> jsval \<Rightarrow>
   exn + string option" where
  "set_outcome h rt w isNA agg row =
     then_do
       (if truthy (agg_valueExpr agg)
        then evalTyped h rt w (js_or (agg_valueExprType agg) (JStr ''jsonata''))
               (agg_valueExpr agg) row
        else first_own_value row)
       (\<lambda>v. then_do (isNA v) (\<lambda>na.
          if na \<or> nullish v then Inr None
          else then_do (js_String rt v) (\<lambda>s.
                 Inr (if js_trim rt s = [] then None else Some s))))"

definition set_entry ::
  "'w host \<Rightarrow> js_runtime \<Rightarrow> 'w \<Rightarrow> (jsval \<Rightarrow> exn + bool) \<Rightarrow> agg_spec \<Rightarrow> jsval \<Rightarrow> string option" where
  "set_entry h rt w isNA agg row =
     (case set_outcome h rt w isNA agg row of Inl e \<Rightarrow> None | Inr entry \<Rightarrow> entry)"

definition set_warning ::
  "'w host \<Rightarrow> js_runtime \<Rightarrow> 'w \<Rightarrow> (jsval \<Rightarrow> exn + bool) \<Rightarrow> string \<Rightarrow> agg_spec \<Rightarrow> jsval \<Rightarrow>
   jsval option" where
  "set_warning h rt w isNA tag agg row =
     (case set_outcome h rt w isNA agg row of
        Inl e \<Rightarrow> Some (JStr (tag @ '' set valueExpr error: '' @ exn_message e))
      | Inr entry \<Rightarrow> None)"

text \<open>The strings of a list, each once, at the place of its first occurrence.\<close>

definition first_occurrences :: "string list \<Rightarrow> string list" where
  "first_occurrences xs = rev (remdups (rev xs))"


section \<open>The data of the examples\<close>

text \<open>
  A message with three items under \<^verbatim>\<open>payload.items\<close>, and a rule that selects them
  and writes them to \<^verbatim>\<open>msg.out\<close>; the examples change one field or another of it.
  \<open>ex_odd\<close> is the JSON value \<^verbatim>\<open>{"toString": "x"}\<close>, which has no string form.
\<close>

definition ex_items :: "jsval list" where
  "ex_items =
     [JObj [(''name'', JStr ''alpha''), (''active'', JBool True)],
      JObj [(''name'', JStr ''bravo''), (''active'', JBool False)],
      JObj [(''name'', JStr ''NA''), (''active'', JBool True)]]"

definition ex_msg :: jsval where
  "ex_msg = JObj [(''payload'', JObj [(''items'', JArr ex_items)])]"

definition ex_world :: stub_world where
  "ex_world = \<lparr>w_msg = ex_msg, w_flow = [], w_global = []\<rparr>"


definition ex_odd :: jsval where
  "ex_odd = JObj [(''toString'', JStr ''x'')]"



definition ex_rule :: rule where
  "ex_rule =
     \<lparr>r_name = Some ''items'', r_selectType = JStr ''jsonata'',
      r_select = JStr ''payload.items'',
      r_filterType = JUndef, r_filter = JUndef, r_map = [], r_aggregate = None,
      r_output = Some \<lparr>out_type = JStr ''msg'', out_path = JStr ''out''\<rparr>,
      r_onEmpty = JUndef, r_onError = JUndef\<rparr>"

definition ex_policy :: "na_policy option" where
  "ex_policy = Some \<lparr>na_enabled = JBool True, na_values = None\<rparr>"

definition ex_isNA :: "jsval \<Rightarrow> exn + bool" where
  "ex_isNA = na_test stub_rt [[], ''na'', ''n/a'']"

definition ex_records :: "jsval list" where
  "ex_records =
     [JObj [(''name'', JStr ''alpha'')], JNull, JObj [(''name'', JStr ''NA'')],
      JObj [(''name'', ex_odd)], JObj [(''name'', JStr ''beta'')],
      JObj [(''name'', JStr ''alpha'')]]"

definition ex_set_agg :: agg_spec where
  "ex_set_agg = default_agg\<lparr>agg_mode := JStr ''set''\<rparr>"

definition ex_key_agg :: agg_spec where
  "ex_key_agg = default_agg\<lparr>agg_mode := JStr ''objectByKey'', agg_keyExpr := JStr ''name''\<rparr>"

text \<open>
  A message with 125001 items, one more than a call takes as arguments in the runtime of
  the examples.
\<close>

definition ex_big_rows :: "jsval list" where
  "ex_big_rows = replicate 125001 JNull"

definition ex_big_msg :: jsval where
  "ex_big_msg = JObj [(''payload'', JObj [(''items'', JArr ex_big_rows)])]"

definition ex_big_world :: stub_world where
  "ex_big_world = \<lparr>w_msg = ex_big_msg, w_flow = [], w_global = []\<rparr>"


section \<open>Properties of the NA policy and of the transforms\<close>

lemma then_do_Inr_iff: "then_do x f = Inr y \<longleftrightarrow> (\<exists>a. x = Inr a \<and> f a = Inr y)"
  by (cases x) auto

lemma then_do_Inl_iff:
  "then_do x f = Inl e \<longleftrightarrow> x = Inl e \<or> (\<exists>a. x = Inr a \<and> f a = Inl e)"
  by (cases x) auto

lemma stub_rt_simps:
  "js_String stub_rt = stub_String" "js_Number stub_rt = stub_Number"
  "js_trim stub_rt = stub_trim" "js_toLowerCase stub_rt = map lower_char"
  "js_toUpperCase stub_rt = map upper_char" "js_JSON_parse stub_rt = stub_JSON_parse"
  "js_max_args stub_rt = 125000"
  by (simp_all add: stub_rt_def)

lemma stub_String_odd: "stub_String ex_odd = Inl type_error"
  by (simp add: ex_odd_def)

lemma ex_policy_isNA: "policy_isNA stub_rt ex_policy = Inr ex_isNA"
proof -
  have c: "lower_char CHR ''N'' = CHR ''n''" "lower_char CHR ''A'' = CHR ''a''"
    by code_simp+
  have "lower_tokens stub_rt default_na_values = Inr [[], ''na'', ''n/a'']"
    by (simp add: default_na_values_def stub_rt_simps c) (simp add: lower_char_def)
  then show ?thesis
    by (simp add: policy_isNA_def ex_policy_def mkNASet_def ex_isNA_def)
qed

lemma lower_tokens_Inr:
  "lower_tokens rt vs = Inr ts \<Longrightarrow>
     set ts = {js_toLowerCase rt s | s t. t \<in> set vs \<and> js_String rt t = Inr s}"
proof (induction vs arbitrary: ts)
  case Nil
  then show ?case by simp
next
  case (Cons v vs)
  from Cons.prems obtain s ts' where
    a: "js_String rt v = Inr s" "lower_tokens rt vs = Inr ts'" "ts = js_toLowerCase rt s # ts'"
    by (auto simp: then_do_Inr_iff)
  from Cons.IH [OF a(2)] a show ?case by auto
qed

lemma lower_tokens_total:
  "\<forall>t \<in> set vs. \<exists>s. js_String rt t = Inr s \<Longrightarrow> \<exists>ts. lower_tokens rt vs = Inr ts"
  by (induction vs) auto

text \<open>
  Claim C3, as the specification states it: under an enabled policy and for every value,
  the value is either NA, and then normalized to \<^verbatim>\<open>null\<close>, or not, and then
  returned unchanged. The NA test evaluates \<^verbatim>\<open>String(v).trim()\<close> on every value that
  is neither \<^verbatim>\<open>null\<close> nor \<^verbatim>\<open>undefined\<close>, and the JSON value
  \<^verbatim>\<open>{"toString": "x"}\<close> has no string form: under the default policy the test throws
  a TypeError on it, and so does \<^verbatim>\<open>normalizeNA\<close>, which returns neither \<^verbatim>\<open>null\<close>
  nor the value.
\<close>

theorem na_policy_counterexample:
  "policy_isNA stub_rt ex_policy = Inr ex_isNA
   \<and> ex_isNA ex_odd = Inl (Exn ''Cannot convert object to primitive value'')
   \<and> normalizeNA ex_odd ex_isNA = Inl (Exn ''Cannot convert object to primitive value'')"
  by (simp add: ex_policy_isNA normalizeNA_def ex_isNA_def na_test_def stub_rt_simps
      ex_odd_def nullish_def type_error_def)

text \<open>
  Claim C3, amended. An absent policy and a disabled one give the test that finds no value
  NA, under which \<^verbatim>\<open>normalizeNA\<close> returns every value unchanged. An enabled policy
  gives a test as soon as each of its tokens (the default tokens when none are
  configured) has a string form. Under that test \<^verbatim>\<open>null\<close> and \<^verbatim>\<open>undefined\<close>
  are NA; a value with a string form is NA exactly when that form trims to the empty
  string, or, trimmed and lower-cased, equals the lower-cased string form of a token; on
  a value with no string form the test throws what \<^verbatim>\<open>String\<close> throws. Whatever the
  test, \<^verbatim>\<open>normalizeNA\<close> returns \<^verbatim>\<open>null\<close> where it finds the value NA, the value
  unchanged where it finds it not NA, and throws where it throws.
\<close>

theorem na_policy_spec:
  "policy_isNA rt None = Inr never_NA
   \<and> (\<not> truthy (na_enabled p) \<longrightarrow> policy_isNA rt (Some p) = Inr never_NA)
   \<and> never_NA v = Inr False
   \<and> normalizeNA v never_NA = Inr v
   \<and> (truthy (na_enabled p)
        \<and> (\<forall>t \<in> set (case na_values p of None \<Rightarrow> default_na_values | Some vs \<Rightarrow> vs).
              \<exists>ts. js_String rt t = Inr ts) \<longrightarrow>
        (\<exists>test. policy_isNA rt (Some p) = Inr test))
   \<and> (truthy (na_enabled p) \<and> policy_isNA rt (Some p) = Inr isNA \<longrightarrow>
        (nullish v \<longrightarrow> isNA v = Inr True)
        \<and> (\<not> nullish v \<and> js_String rt v = Inr s \<longrightarrow>
             isNA v = Inr (js_trim rt s = []
               \<or> (\<exists>t \<in> set (case na_values p of None \<Rightarrow> default_na_values | Some vs \<Rightarrow> vs).
                     \<exists>ts. js_String rt t = Inr ts
                       \<and> js_toLowerCase rt (js_trim rt s) = js_toLowerCase rt ts)))
        \<and> (\<not> nullish v \<and> js_String rt v = Inl e \<longrightarrow> isNA v = Inl e))
   \<and> (test v = Inr True \<longrightarrow> normalizeNA v test = Inr JNull)
   \<and> (test v = Inr False \<longrightarrow> normalizeNA v test = Inr v)
   \<and> (test v = Inl e \<longrightarrow> normalizeNA v test = Inl e)"
proof -
  let ?vs = "case na_values p of None \<Rightarrow> default_na_values | Some vs \<Rightarrow> vs"
  have total: "\<exists>test. policy_isNA rt (Some p) = Inr test"
    if "truthy (na_enabled p)" "\<forall>t \<in> set ?vs. \<exists>ts. js_String rt t = Inr ts"
  proof -
    from lower_tokens_total [OF that(2)] obtain ts where "lower_tokens rt ?vs = Inr ts" ..
    with that(1) show ?thesis by (simp add: policy_isNA_def mkNASet_def)
  qed
  have test: "(nullish v \<longrightarrow> isNA v = Inr True)
        \<and> (\<not> nullish v \<and> js_String rt v = Inr s \<longrightarrow>
             isNA v = Inr (js_trim rt s = []
               \<or> (\<exists>t \<in> set ?vs. \<exists>ts. js_String rt t = Inr ts
                       \<and> js_toLowerCase rt (js_trim rt s) = js_toLowerCase rt ts)))
        \<and> (\<not> nullish v \<and> js_String rt v = Inl e \<longrightarrow> isNA v = Inl e)"
    if "truthy (na_enabled p)" "policy_isNA rt (Some p) = Inr isNA"
  proof -
    from that obtain ts where ts: "lower_tokens rt ?vs = Inr ts" and f: "isNA = na_test rt ts"
      by (auto simp: policy_isNA_def mkNASet_def then_do_Inr_iff)
    note m = lower_tokens_Inr [OF ts]
    show ?thesis
      unfolding f by (auto simp: na_test_def Let_def m)
  qed
  have b1: "policy_isNA rt None = Inr never_NA"
    and b2: "\<not> truthy (na_enabled p) \<longrightarrow> policy_isNA rt (Some p) = Inr never_NA"
    and b3: "never_NA v = Inr False"
    and b4: "normalizeNA v never_NA = Inr v"
    by (simp_all add: policy_isNA_def never_NA_def normalizeNA_def)
  have n1: "test v = Inr True \<longrightarrow> normalizeNA v test = Inr JNull"
    and n2: "test v = Inr False \<longrightarrow> normalizeNA v test = Inr v"
    and n3: "test v = Inl e \<longrightarrow> normalizeNA v test = Inl e"
    by (simp_all add: normalizeNA_def)
  have total': "truthy (na_enabled p) \<and> (\<forall>t \<in> set ?vs. \<exists>ts. js_String rt t = Inr ts) \<longrightarrow>
        (\<exists>test. policy_isNA rt (Some p) = Inr test)"
    using total by (intro impI) (elim conjE)
  have test': "truthy (na_enabled p) \<and> policy_isNA rt (Some p) = Inr isNA \<longrightarrow>
        (nullish v \<longrightarrow> isNA v = Inr True)
        \<and> (\<not> nullish v \<and> js_String rt v = Inr s \<longrightarrow>
             isNA v = Inr (js_trim rt s = []
               \<or> (\<exists>t \<in> set ?vs. \<exists>ts. js_String rt t = Inr ts
                       \<and> js_toLowerCase rt (js_trim rt s) = js_toLowerCase rt ts)))
        \<and> (\<not> nullish v \<and> js_String rt v = Inl e \<longrightarrow> isNA v = Inl e)"
    using test by (intro impI) (elim conjE)
  show ?thesis
    by (intro conjI) (rule b1 b2 b3 b4 total' test' n1 n2 n3)+
qed

theorem na_policy_spec_witness:
  "policy_isNA stub_rt ex_policy = Inr ex_isNA
   \<and> ex_isNA JNull = Inr True
   \<and> ex_isNA (JStr '' n/a '') = Inr True
   \<and> normalizeNA (JStr '' n/a '') ex_isNA = Inr JNull
   \<and> ex_isNA (JStr ''alpha'') = Inr False
   \<and> normalizeNA (JStr ''alpha'') ex_isNA = Inr (JStr ''alpha'')"
proof -
  let ?p = "\<lparr>na_enabled = JBool True, na_values = None\<rparr>"
  have p: "policy_isNA stub_rt (Some ?p) = Inr ex_isNA"
    using ex_policy_isNA by (simp add: ex_policy_def)
  have t: "stub_trim '' n/a '' = ''n/a''" "stub_trim ''alpha'' = ''alpha''"
    by (simp_all add: stub_trim_def is_space_def)
  have a: "ex_isNA (JStr '' n/a '') = Inr True"
    by (simp add: ex_isNA_def na_test_def nullish_def stub_rt_simps t lower_char_def)
  have b: "ex_isNA (JStr ''alpha'') = Inr False"
    by (simp add: ex_isNA_def na_test_def nullish_def stub_rt_simps t lower_char_def)
  note th1 = na_policy_spec [where p = ?p and rt = stub_rt and isNA = ex_isNA
        and v = "JStr '' n/a ''" and s = "'' n/a ''" and e = type_error and test = ex_isNA]
  note th2 = na_policy_spec [where p = ?p and rt = stub_rt and isNA = ex_isNA
        and v = "JStr ''alpha''" and s = "''alpha''" and e = type_error and test = ex_isNA]
  note th3 = na_policy_spec [where p = ?p and rt = stub_rt and isNA = ex_isNA
        and v = JNull and s = "[]" and e = type_error and test = ex_isNA]
  have c: "ex_isNA (JStr '' n/a '') = Inr True \<longrightarrow>
      normalizeNA (JStr '' n/a '') ex_isNA = Inr JNull"
    using th1 by (elim conjE)
  have d: "ex_isNA (JStr ''alpha'') = Inr False \<longrightarrow>
      normalizeNA (JStr ''alpha'') ex_isNA = Inr (JStr ''alpha'')"
    using th2 by (elim conjE)
  have n: "truthy (na_enabled ?p) \<and> policy_isNA stub_rt (Some ?p) = Inr ex_isNA \<longrightarrow>
      (nullish JNull \<longrightarrow> ex_isNA JNull = Inr True)
      \<and> (\<not> nullish JNull \<and> js_String stub_rt JNull = Inr [] \<longrightarrow>
           ex_isNA JNull = Inr (js_trim stub_rt [] = []
             \<or> (\<exists>t \<in> set (case na_values ?p of None \<Rightarrow> default_na_values | Some vs \<Rightarrow> vs).
                   \<exists>ts. js_String stub_rt t = Inr ts
                     \<and> js_toLowerCase stub_rt (js_trim stub_rt []) = js_toLowerCase stub_rt ts)))
      \<and> (\<not> nullish JNull \<and> js_String stub_rt JNull = Inl type_error \<longrightarrow>
           ex_isNA JNull = Inl type_error)"
    using th3 by (elim conjE)
  from n p have e: "ex_isNA JNull = Inr True"
    by (simp add: nullish_def)
  from a b c d e ex_policy_isNA show ?thesis by simp
qed

text \<open>
  Claim C8, as the specification states it: every transform is total and never raises on
  any JSON input. \<^verbatim>\<open>trim\<close>, \<^verbatim>\<open>lower\<close>, \<^verbatim>\<open>upper\<close>, \<^verbatim>\<open>number\<close> and
  \<^verbatim>\<open>string\<close> evaluate \<^verbatim>\<open>String(v)\<close> on every value that is neither \<^verbatim>\<open>null\<close>
  nor \<^verbatim>\<open>undefined\<close>; on the JSON value \<^verbatim>\<open>{"toString": "x"}\<close>, which has no string
  form, each of the five throws a TypeError.
\<close>

theorem applyTransform_counterexample:
  "applyTransform stub_rt (JStr ''trim'') ex_odd
     = Inl (Exn ''Cannot convert object to primitive value'')
   \<and> applyTransform stub_rt (JStr ''lower'') ex_odd
     = Inl (Exn ''Cannot convert object to primitive value'')
   \<and> applyTransform stub_rt (JStr ''upper'') ex_odd
     = Inl (Exn ''Cannot convert object to primitive value'')
   \<and> applyTransform stub_rt (JStr ''number'') ex_odd
     = Inl (Exn ''Cannot convert object to primitive value'')
   \<and> applyTransform stub_rt (JStr ''string'') ex_odd
     = Inl (Exn ''Cannot convert object to primitive value'')"
  by (simp add: applyTransform_def stub_rt_simps ex_odd_def nullish_def type_error_def)

text \<open>
  Claim C8, amended. On \<^verbatim>\<open>null\<close> and \<^verbatim>\<open>undefined\<close>, \<^verbatim>\<open>trim\<close>, \<^verbatim>\<open>lower\<close>
  and \<^verbatim>\<open>upper\<close> return the value as it is, \<^verbatim>\<open>number\<close> returns \<^verbatim>\<open>null\<close> and
  \<^verbatim>\<open>string\<close> the empty string. On any other value that has a string form,
  \<^verbatim>\<open>trim\<close>, \<^verbatim>\<open>lower\<close> and \<^verbatim>\<open>upper\<close> return that form, trimmed or with its
  case changed, and \<^verbatim>\<open>string\<close> returns it as it is; \<^verbatim>\<open>number\<close> returns
  \<^verbatim>\<open>null\<close> when the form trims to the empty string, and otherwise throws what
  \<^verbatim>\<open>Number\<close> of the value throws, returns \<^verbatim>\<open>null\<close> when that number is not
  finite, and the number when it is. On a value with no string form the five throw what
  \<^verbatim>\<open>String\<close> throws. \<^verbatim>\<open>bool01\<close> never throws: it returns 1 for a truthy value
  and 0 for a falsy one, the number 0 included. \<^verbatim>\<open>none\<close> and every name that is none
  of the six return the value as it is and never throw.
\<close>

theorem applyTransform_spec:
  "(nullish v \<longrightarrow>
      applyTransform rt (JStr ''trim'') v = Inr v
      \<and> applyTransform rt (JStr ''lower'') v = Inr v
      \<and> applyTransform rt (JStr ''upper'') v = Inr v
      \<and> applyTransform rt (JStr ''number'') v = Inr JNull
      \<and> applyTransform rt (JStr ''string'') v = Inr (JStr []))
   \<and> (\<not> nullish v \<and> js_String rt v = Inr s \<longrightarrow>
      applyTransform rt (JStr ''trim'') v = Inr (JStr (js_trim rt s))
      \<and> applyTransform rt (JStr ''lower'') v = Inr (JStr (js_toLowerCase rt s))
      \<and> applyTransform rt (JStr ''upper'') v = Inr (JStr (js_toUpperCase rt s))
      \<and> applyTransform rt (JStr ''string'') v = Inr (JStr s)
      \<and> (js_trim rt s = [] \<longrightarrow> applyTransform rt (JStr ''number'') v = Inr JNull)
      \<and> (js_trim rt s \<noteq> [] \<and> js_Number rt v = Inl e \<longrightarrow>
           applyTransform rt (JStr ''number'') v = Inl e)
      \<and> (js_trim rt s \<noteq> [] \<and> js_Number rt v = Inr n \<and> \<not> isFinite n \<longrightarrow>
           applyTransform rt (JStr ''number'') v = Inr JNull)
      \<and> (js_trim rt s \<noteq> [] \<and> js_Number rt v = Inr n \<and> isFinite n \<longrightarrow>
           applyTransform rt (JStr ''number'') v = Inr (JNum n)))
   \<and> (\<not> nullish v \<and> js_String rt v = Inl e \<longrightarrow>
      applyTransform rt (JStr ''trim'') v = Inl e
      \<and> applyTransform rt (JStr ''lower'') v = Inl e
      \<and> applyTransform rt (JStr ''upper'') v = Inl e
      \<and> applyTransform rt (JStr ''number'') v = Inl e
      \<and> applyTransform rt (JStr ''string'') v = Inl e)
   \<and> (truthy v \<longrightarrow> applyTransform rt (JStr ''bool01'') v = Inr (JNum (JFin 1)))
   \<and> (\<not> truthy v \<longrightarrow> applyTransform rt (JStr ''bool01'') v = Inr (JNum (JFin 0)))
   \<and> applyTransform rt (JStr ''bool01'') (JNum (JFin 0)) = Inr (JNum (JFin 0))
   \<and> applyTransform rt (JStr ''none'') v = Inr v
   \<and> (name \<notin> {JStr ''trim'', JStr ''lower'', JStr ''upper'', JStr ''number'',
                JStr ''bool01'', JStr ''string''} \<longrightarrow> applyTransform rt name v = Inr v)"
  by (simp add: applyTransform_def)

theorem applyTransform_spec_witness:
  "applyTransform stub_rt (JStr ''trim'') (JStr '' a b '') = Inr (JStr ''a b'')
   \<and> applyTransform stub_rt (JStr ''number'') (JStr '' 42 '') = Inr (JNum (JFin 42))
   \<and> applyTransform stub_rt (JStr ''number'') (JStr ''4x'') = Inr JNull
   \<and> applyTransform stub_rt (JStr ''number'') (JStr ''  '') = Inr JNull
   \<and> applyTransform stub_rt (JStr ''bool01'') (JStr ''no'') = Inr (JNum (JFin 1))
   \<and> applyTransform stub_rt (JStr ''bool01'') (JStr []) = Inr (JNum (JFin 0))
   \<and> applyTransform stub_rt (JStr ''string'') JNull = Inr (JStr [])
   \<and> applyTransform stub_rt (JStr ''reverse'') (JStr ''ab'') = Inr (JStr ''ab'')
   \<and> applyTransform stub_rt (JStr ''string'') ex_odd = Inl type_error"
proof -
  have t1: "stub_trim '' a b '' = ''a b''" "stub_trim '' 42 '' = ''42''"
    "stub_trim ''4x'' = ''4x''" "stub_trim ''  '' = []"
    by (simp_all add: stub_trim_def is_space_def)
  have n1: "stub_Number (JStr '' 42 '') = Inr (JFin 42)"
    "stub_Number (JStr ''4x'') = Inr JNaN"
    by (simp_all add: stub_Number_def parse_number_def t1 digit_of_def)
  have o: "\<not> nullish ex_odd" by (simp add: nullish_def ex_odd_def)
  have od: "applyTransform stub_rt (JStr ''string'') ex_odd = Inl type_error"
    using applyTransform_spec [where v = ex_odd and rt = stub_rt and s = "[]"
        and e = type_error and n = JNaN and name = "JStr ''none''"] o stub_String_odd
    by (simp add: stub_rt_simps)
  show ?thesis
    using applyTransform_spec [where v = "JStr '' a b ''" and rt = stub_rt and s = "'' a b ''"
        and e = type_error and n = "JNaN" and name = "JStr ''none''"]
      applyTransform_spec [where v = "JStr '' 42 ''" and rt = stub_rt and s = "'' 42 ''"
        and e = type_error and n = "JFin 42" and name = "JStr ''none''"]
      applyTransform_spec [where v = "JStr ''4x''" and rt = stub_rt and s = "''4x''"
        and e = type_error and n = "JNaN" and name = "JStr ''none''"]
      applyTransform_spec [where v = "JStr ''  ''" and rt = stub_rt and s = "''  ''"
        and e = type_error and n = "JNaN" and name = "JStr ''none''"]
      applyTransform_spec [where v = "JStr ''no''" and rt = stub_rt and s = "''no''"
        and e = type_error and n = "JNaN" and name = "JStr ''none''"]
      applyTransform_spec [where v = "JStr []" and rt = stub_rt and s = "[]"
        and e = type_error and n = "JNaN" and name = "JStr ''none''"]
      applyTransform_spec [where v = "JNull" and rt = stub_rt and s = "[]"
        and e = type_error and n = "JNaN" and name = "JStr ''none''"]
      applyTransform_spec [where v = "JStr ''ab''" and rt = stub_rt and s = "''ab''"
        and e = type_error and n = "JNaN" and name = "JStr ''reverse''"]
    by (simp add: stub_rt_simps t1 n1 nullish_def od)
qed

section \<open>The typed evaluator\<close>

text \<open>
  Claim C1, as the specification states it: for a source of type \<^verbatim>\<open>msg\<close>,
  \<^verbatim>\<open>flow\<close> or \<^verbatim>\<open>global\<close> the evaluator returns the value looked up, or
  \<^verbatim>\<open>undefined\<close> when the lookup fails, and never throws. The three branches call
  the host with no \<^verbatim>\<open>try\<close> around the call, and
  \<^verbatim>\<open>RED.util.getMessageProperty\<close> throws when the parent of the property does not
  exist. On the message of the examples, which has no \<^verbatim>\<open>missing\<close>, the source
  \<^verbatim>\<open>missing.child\<close> of type \<^verbatim>\<open>msg\<close> throws.
\<close>

theorem evalTyped_msg_counterexample:
  "evalTyped stub_host stub_rt ex_world (JStr ''msg'') (JStr ''missing.child'') JUndef
     = Inl (Exn ''Cannot read properties of undefined (reading 'child')'')"
  by (simp add: evalTyped_def stub_host_def stub_rt_simps stub_getObjectProperty_def
      ex_world_def ex_msg_def get_own_def)

text \<open>
  Claim C1, amended. The types \<^verbatim>\<open>msg\<close>, \<^verbatim>\<open>flow\<close>, \<^verbatim>\<open>global\<close>,
  \<^verbatim>\<open>env\<close> and \<^verbatim>\<open>path\<close> first take the string form of the source: when it has
  none, the five throw what \<^verbatim>\<open>String\<close> throws. When it has one, \<^verbatim>\<open>msg\<close>,
  \<^verbatim>\<open>flow\<close> and \<^verbatim>\<open>global\<close> return what the host's lookup returns and throw
  what it throws; \<^verbatim>\<open>env\<close> returns the variable, or the empty string; \<^verbatim>\<open>path\<close>
  returns what the host's lookup returns, and \<^verbatim>\<open>undefined\<close> when that lookup
  throws. \<^verbatim>\<open>str\<close> returns the string form of the source (of the empty string for
  \<^verbatim>\<open>null\<close> and \<^verbatim>\<open>undefined\<close>) and throws when there is none; \<^verbatim>\<open>num\<close>
  returns \<^verbatim>\<open>Number\<close> of the source and throws what it throws. \<^verbatim>\<open>bool\<close>,
  \<^verbatim>\<open>json\<close> and every type that is none of the ten always return a value.
  \<^verbatim>\<open>jsonata\<close> rejects exactly when the expression is neither \<^verbatim>\<open>null\<close>,
  \<^verbatim>\<open>undefined\<close> nor the empty string and either has no string form, or fails to
  compile or to evaluate on the row's data; and then with that error.
\<close>

theorem evalTyped_branches:
  "(js_String rt src = Inr s \<longrightarrow>
      evalTyped h rt w (JStr ''msg'') src row = RED_getMessageProperty h w (JStr s)
      \<and> evalTyped h rt w (JStr ''flow'') src row = flow_get h w (JStr s)
      \<and> evalTyped h rt w (JStr ''global'') src row = global_get h w (JStr s)
      \<and> evalTyped h rt w (JStr ''env'') src row = Inr (js_or (process_env h s) (JStr []))
      \<and> (\<forall>v. RED_getObjectProperty h (js_coalesce row (msg_of h w)) (JStr s) = Inr v \<longrightarrow>
             evalTyped h rt w (JStr ''path'') src row = Inr v)
      \<and> (\<forall>e'. RED_getObjectProperty h (js_coalesce row (msg_of h w)) (JStr s) = Inl e' \<longrightarrow>
             evalTyped h rt w (JStr ''path'') src row = Inr JUndef))
   \<and> (js_String rt src = Inl e \<longrightarrow>
      evalTyped h rt w (JStr ''msg'') src row = Inl e
      \<and> evalTyped h rt w (JStr ''flow'') src row = Inl e
      \<and> evalTyped h rt w (JStr ''global'') src row = Inl e
      \<and> evalTyped h rt w (JStr ''env'') src row = Inl e
      \<and> evalTyped h rt w (JStr ''path'') src row = Inl e)
   \<and> (js_String rt (js_coalesce src (JStr [])) = Inr s \<longrightarrow>
      evalTyped h rt w (JStr ''str'') src row = Inr (JStr s))
   \<and> (js_String rt (js_coalesce src (JStr [])) = Inl e \<longrightarrow>
      evalTyped h rt w (JStr ''str'') src row = Inl e)
   \<and> (js_Number rt src = Inr n \<longrightarrow> evalTyped h rt w (JStr ''num'') src row = Inr (JNum n))
   \<and> (js_Number rt src = Inl e \<longrightarrow> evalTyped h rt w (JStr ''num'') src row = Inl e)
   \<and> (ty \<notin> {JStr ''msg'', JStr ''flow'', JStr ''global'', JStr ''env'', JStr ''path'',
              JStr ''jsonata'', JStr ''str'', JStr ''num''} \<longrightarrow>
        (\<exists>v. evalTyped h rt w ty src row = Inr v))
   \<and> (evalTyped h rt w (JStr ''jsonata'') src row = Inl e \<longleftrightarrow>
        \<not> nullish src \<and> src \<noteq> JStr []
        \<and> (js_String rt src = Inl e
           \<or> (\<exists>s. js_String rt src = Inr s
                  \<and> RED_jsonata h w s (data_root h w row) = Inl e)))"
proof -
  have a: "js_String rt src = Inr s \<longrightarrow>
      evalTyped h rt w (JStr ''msg'') src row = RED_getMessageProperty h w (JStr s)
      \<and> evalTyped h rt w (JStr ''flow'') src row = flow_get h w (JStr s)
      \<and> evalTyped h rt w (JStr ''global'') src row = global_get h w (JStr s)
      \<and> evalTyped h rt w (JStr ''env'') src row = Inr (js_or (process_env h s) (JStr []))
      \<and> (\<forall>v. RED_getObjectProperty h (js_coalesce row (msg_of h w)) (JStr s) = Inr v \<longrightarrow>
             evalTyped h rt w (JStr ''path'') src row = Inr v)
      \<and> (\<forall>e'. RED_getObjectProperty h (js_coalesce row (msg_of h w)) (JStr s) = Inl e' \<longrightarrow>
             evalTyped h rt w (JStr ''path'') src row = Inr JUndef)"
    by (simp add: evalTyped_def getObjectProperty_def)
  have b: "js_String rt src = Inl e \<longrightarrow>
      evalTyped h rt w (JStr ''msg'') src row = Inl e
      \<and> evalTyped h rt w (JStr ''flow'') src row = Inl e
      \<and> evalTyped h rt w (JStr ''global'') src row = Inl e
      \<and> evalTyped h rt w (JStr ''env'') src row = Inl e
      \<and> evalTyped h rt w (JStr ''path'') src row = Inl e"
    by (simp add: evalTyped_def)
  have c: "js_String rt (js_coalesce src (JStr [])) = Inr s \<longrightarrow>
      evalTyped h rt w (JStr ''str'') src row = Inr (JStr s)"
    and d: "js_String rt (js_coalesce src (JStr [])) = Inl e \<longrightarrow>
      evalTyped h rt w (JStr ''str'') src row = Inl e"
    and f: "js_Number rt src = Inr n \<longrightarrow> evalTyped h rt w (JStr ''num'') src row = Inr (JNum n)"
    and g: "js_Number rt src = Inl e \<longrightarrow> evalTyped h rt w (JStr ''num'') src row = Inl e"
    by (simp_all add: evalTyped_def)
  have i: "ty \<notin> {JStr ''msg'', JStr ''flow'', JStr ''global'', JStr ''env'', JStr ''path'',
              JStr ''jsonata'', JStr ''str'', JStr ''num''} \<longrightarrow>
        (\<exists>v. evalTyped h rt w ty src row = Inr v)"
    by (simp add: evalTyped_def split: jsval.splits)
  have j: "evalTyped h rt w (JStr ''jsonata'') src row = Inl e \<longleftrightarrow>
        \<not> nullish src \<and> src \<noteq> JStr []
        \<and> (js_String rt src = Inl e
           \<or> (\<exists>s. js_String rt src = Inr s
                  \<and> RED_jsonata h w s (data_root h w row) = Inl e))"
    by (auto simp: evalTyped_def jsonataEval_def then_do_Inl_iff)
  show ?thesis
    by (intro conjI) (rule a b c d f g i j)+
qed

theorem evalTyped_branches_witness:
  "evalTyped stub_host stub_rt ex_world (JStr ''msg'') (JStr ''payload.items'') JUndef
     = Inr (JArr ex_items)
   \<and> evalTyped stub_host stub_rt ex_world (JStr ''path'') (JStr ''missing.child'') JUndef
     = Inr JUndef
   \<and> evalTyped stub_host stub_rt ex_world (JStr ''jsonata'') (JStr ''$error()'') JUndef
     = Inl (Exn ''$error() function evaluated'')
   \<and> evalTyped stub_host stub_rt ex_world (JStr ''env'') ex_odd JUndef = Inl type_error
   \<and> evalTyped stub_host stub_rt ex_world (JStr ''num'') ex_odd JUndef = Inl type_error"
proof -
  note th1 = evalTyped_branches [where h = stub_host and rt = stub_rt and w = ex_world
      and src = "JStr ''payload.items''" and s = "''payload.items''" and row = JUndef
      and ty = "JStr ''bool''" and e = type_error and n = JNaN]
  note th2 = evalTyped_branches [where h = stub_host and rt = stub_rt and w = ex_world
      and src = "JStr ''missing.child''" and s = "''missing.child''" and row = JUndef
      and ty = "JStr ''bool''" and e = type_error and n = JNaN]
  note th3 = evalTyped_branches [where h = stub_host and rt = stub_rt and w = ex_world
      and src = "JStr ''$error()''" and s = "''$error()''" and row = JUndef
      and ty = "JStr ''bool''" and e = "Exn ''$error() function evaluated''" and n = JNaN]
  note th4 = evalTyped_branches [where h = stub_host and rt = stub_rt and w = ex_world
      and src = ex_odd and s = "[]" and row = JUndef
      and ty = "JStr ''bool''" and e = type_error and n = JNaN]
  have a: "evalTyped stub_host stub_rt ex_world (JStr ''msg'') (JStr ''payload.items'') JUndef
     = Inr (JArr ex_items)"
    using th1
    by (simp add: stub_rt_simps stub_host_def stub_getObjectProperty_def ex_world_def
        ex_msg_def get_own_def)
  have b: "evalTyped stub_host stub_rt ex_world (JStr ''path'') (JStr ''missing.child'') JUndef
     = Inr JUndef"
    using th2
    by (simp add: stub_rt_simps stub_host_def stub_getObjectProperty_def ex_world_def
        ex_msg_def get_own_def js_coalesce_def nullish_def)
  have c: "evalTyped stub_host stub_rt ex_world (JStr ''jsonata'') (JStr ''$error()'') JUndef
     = Inl (Exn ''$error() function evaluated'')"
    using th3
    by (simp add: stub_rt_simps stub_host_def stub_jsonata_def nullish_def)
  have n: "stub_Number ex_odd = Inl type_error"
    by (simp add: stub_Number_def ex_odd_def)
  have d: "evalTyped stub_host stub_rt ex_world (JStr ''env'') ex_odd JUndef = Inl type_error
    \<and> evalTyped stub_host stub_rt ex_world (JStr ''num'') ex_odd JUndef = Inl type_error"
    using th4 stub_String_odd n
    by (simp add: stub_rt_simps)
  from a b c d show ?thesis by simp
qed

section \<open>Warnings and errors are only appended\<close>

lemma filter_rows_fst:
  "fst (filter_rows h rt w tag r rows acc) = fst acc @ filter (row_kept h rt w r) rows"
  by (induction rows arbitrary: acc)
     (auto simp: filter_row_def row_kept_def split: sum.splits)









lemma length_replace_prop: "length (replace_prop k v ps) = length ps"
  by (induction ps) auto

lemma length_insert_index: "length (insert_index n k v ps) = Suc (length ps)"
  by (induction ps) (auto split: option.splits)

lemma length_define_prop: "length (define_prop k v ps) \<le> Suc (length ps)"
  by (simp add: define_prop_def length_replace_prop length_insert_index split: option.splits)

lemma length_assign_prop: "length (assign_prop k v ps) \<le> Suc (length ps)"
  using length_define_prop [of k v ps] by (simp add: assign_prop_def)


lemma objectByKey_row_length:
  "length (fst (objectByKey_row h rt w tag agg row acc)) \<le> Suc (length (fst acc))"
  by (simp add: objectByKey_row_def length_assign_prop split: sum.splits)


lemma objectByKey_rows_length:
  "length (fst (objectByKey_rows h rt w tag agg rows acc)) \<le> length (fst acc) + length rows"
proof (induction rows arbitrary: acc)
  case Nil
  show ?case by simp
next
  case (Cons row rows)
  from Cons [of "objectByKey_row h rt w tag agg row acc"]
    objectByKey_row_length [of h rt w tag agg row acc]
  show ?case by simp
qed









section \<open>The select stage and the error policy\<close>



section \<open>The filter and map stages\<close>

lemma length_ex_big_rows: "length ex_big_rows = 125001"
  by (simp only: ex_big_rows_def length_replicate)

text \<open>
  Claim C9: with an empty field list and the \<^verbatim>\<open>array\<close> aggregate, the result of a
  rule is the array of the rows the filter keeps, each as it is in the scope and in the
  order of the scope. The filter stage yields just these rows (the scope itself when the
  rule has no filter), and the NA policy has no part in it. But the map stage then copies
  them with \<^verbatim>\<open>mapped.push(...rows)\<close>, one argument a row, outside every \<^verbatim>\<open>try\<close>:
  with more rows than a call can take, it throws a RangeError, which no \<^verbatim>\<open>catch\<close> of
  the rule sees, so the loop over the rules ends there, nothing is written and no later
  rule runs. Up to that number of rows the result is the array of the filtered rows.
\<close>

theorem passthrough_limit:
  "r_map r = [] \<longrightarrow>
     fst (filter_stage h rt w tag r scope ws)
       = (if truthy (r_filter r) then filter (row_kept h rt w r) scope else scope)
     \<and> (length (fst (filter_stage h rt w tag r scope ws)) \<le> js_max_args rt
          \<and> mode_of r = JStr ''array'' \<longrightarrow>
        rule_result h rt w isNA tag r scope ws
          = Inr (JArr (fst (filter_stage h rt w tag r scope ws)),
                 snd (filter_stage h rt w tag r scope ws)))
     \<and> (js_max_args rt < length (fst (filter_stage h rt w tag r scope ws)) \<longrightarrow>
        rule_result h rt w isNA tag r scope ws
          = Inl (Exn ''Maximum call stack size exceeded'',
                 snd (filter_stage h rt w tag r scope ws)))
     \<and> (select_scope h rt (st_world st) (st_root st) r = Inr (JArr scope)
          \<and> js_max_args rt
              < length (fst (filter_stage h rt (st_world st) (rule_tag i r) r scope
                               (st_warnings st))) \<longrightarrow>
        run_rules h rt isNA i (r # rs) st
          = Inl (Exn ''Maximum call stack size exceeded'',
                 st\<lparr>st_warnings :=
                      snd (filter_stage h rt (st_world st) (rule_tag i r) r scope
                             (st_warnings st))\<rparr>))"
proof -
  have a: "fst (filter_stage h rt w tag r scope ws)
       = (if truthy (r_filter r) then filter (row_kept h rt w r) scope else scope)"
    by (simp add: filter_stage_def filter_rows_fst)
  have b: "rule_result h rt w isNA tag r scope ws
          = Inr (JArr (fst (filter_stage h rt w tag r scope ws)),
                 snd (filter_stage h rt w tag r scope ws))"
    if "r_map r = []" "length (fst (filter_stage h rt w tag r scope ws)) \<le> js_max_args rt"
      "mode_of r = JStr ''array''"
    using that by (simp add: rule_result_def map_stage_def push_spread_def aggregate_def Let_def)
  have c: "rule_result h rt w isNA tag r scope ws
          = Inl (Exn ''Maximum call stack size exceeded'',
                 snd (filter_stage h rt w tag r scope ws))"
    if "r_map r = []" "js_max_args rt < length (fst (filter_stage h rt w tag r scope ws))"
    for w tag ws
    using that by (simp add: rule_result_def map_stage_def push_spread_def Let_def)
  have d: "run_rules h rt isNA i (r # rs) st
          = Inl (Exn ''Maximum call stack size exceeded'',
                 st\<lparr>st_warnings :=
                      snd (filter_stage h rt (st_world st) (rule_tag i r) r scope
                             (st_warnings st))\<rparr>)"
    if "r_map r = []" "select_scope h rt (st_world st) (st_root st) r = Inr (JArr scope)"
      "js_max_args rt
         < length (fst (filter_stage h rt (st_world st) (rule_tag i r) r scope (st_warnings st)))"
    using that(2) c [OF that(1) that(3)] by (simp add: rule_step_def Let_def)
  show ?thesis
    using a b c d by simp
qed

theorem passthrough_limit_witness:
  "rule_result stub_host stub_rt ex_world ex_isNA ''[rule:items]''
      (ex_rule\<lparr>r_filter := JStr ''active''\<rparr>) ex_items []
     = Inr (JArr [JObj [(''name'', JStr ''alpha''), (''active'', JBool True)],
                  JObj [(''name'', JStr ''NA''), (''active'', JBool True)]], [])
   \<and> run_rules stub_host stub_rt ex_isNA 0 [ex_rule, ex_rule]
        (initial_state ex_big_world ex_big_msg [] [])
     = Inl (Exn ''Maximum call stack size exceeded'', initial_state ex_big_world ex_big_msg [] [])"
proof -
  let ?r = "ex_rule\<lparr>r_filter := JStr ''active''\<rparr>"
  let ?st = "initial_state ex_big_world ex_big_msg [] []"
  have m: "r_map ?r = []" "mode_of ?r = JStr ''array''" "r_map ex_rule = []"
    by (simp_all add: ex_rule_def mode_of_def agg_of_def default_agg_def js_or_def)
  have k: "filter (row_kept stub_host stub_rt ex_world ?r) ex_items
      = [JObj [(''name'', JStr ''alpha''), (''active'', JBool True)],
         JObj [(''name'', JStr ''NA''), (''active'', JBool True)]]"
    by (simp add: row_kept_def evalTyped_def jsonataEval_def data_root_def own_entries_def
        define_prop_def array_index_def digit_of_def stub_host_def stub_rt_simps stub_jsonata_def
        ex_rule_def ex_items_def ex_world_def ex_msg_def js_or_def nullish_def get_own_def)
  have f: "snd (filter_stage stub_host stub_rt ex_world ''[rule:items]'' ?r ex_items []) = []"
    by (simp add: filter_stage_def filter_row_def evalTyped_def jsonataEval_def data_root_def
        own_entries_def
        define_prop_def array_index_def digit_of_def stub_host_def stub_rt_simps stub_jsonata_def
        ex_rule_def ex_items_def ex_world_def ex_msg_def js_or_def nullish_def get_own_def)
  have t: "truthy (r_filter ?r)" by (simp add: ex_rule_def)
  from passthrough_limit [where r = ?r and h = stub_host and rt = stub_rt and w = ex_world
      and isNA = ex_isNA and tag = "''[rule:items]''" and scope = ex_items and ws = "[]"
      and st = ?st and i = 0 and rs = "[]"] m k f t
  have small: "rule_result stub_host stub_rt ex_world ex_isNA ''[rule:items]'' ?r ex_items []
     = Inr (JArr [JObj [(''name'', JStr ''alpha''), (''active'', JBool True)],
                  JObj [(''name'', JStr ''NA''), (''active'', JBool True)]], [])"
    by (simp add: stub_rt_simps)
  have s: "select_scope stub_host stub_rt (st_world ?st) (st_root ?st) ex_rule
      = Inr (JArr ex_big_rows)"
    by (simp add: select_scope_def jsonataEval_def ex_rule_def initial_state_def
        stub_host_def stub_rt_simps stub_jsonata_def js_or_def nullish_def ex_big_msg_def
        get_own_def)
  have fs: "filter_stage stub_host stub_rt (st_world ?st) (rule_tag 0 ex_rule) ex_rule ex_big_rows
      (st_warnings ?st) = (ex_big_rows, [])"
    by (simp add: filter_stage_def ex_rule_def initial_state_def)
  from passthrough_limit [where r = ex_rule and h = stub_host and rt = stub_rt and w = ex_world
      and isNA = ex_isNA and tag = "''[rule:items]''" and scope = ex_big_rows and ws = "[]"
      and st = ?st and i = 0 and rs = "[ex_rule]"] m(3) s fs
  have big: "run_rules stub_host stub_rt ex_isNA 0 [ex_rule, ex_rule] ?st
     = Inl (Exn ''Maximum call stack size exceeded'', ?st)"
    by (simp add: stub_rt_simps length_ex_big_rows initial_state_def)
  from small big show ?thesis by simp
qed







section \<open>The aggregators\<close>

lemma set_rows_snoc:
  "set_rows h rt w isNA tag agg (rows @ [row]) acc
     = set_row h rt w isNA tag agg row (set_rows h rt w isNA tag agg rows acc)"
  by (induction rows arbitrary: acc) simp_all

lemma set_first_occurrences: "set (first_occurrences xs) = set xs"
  by (simp add: first_occurrences_def)

lemma distinct_first_occurrences: "distinct (first_occurrences xs)"
  by (simp add: first_occurrences_def)

lemma first_occurrences_snoc:
  "first_occurrences (xs @ [x]) = set_add x (first_occurrences xs)"
  by (simp add: first_occurrences_def set_add_def)

lemma map_filter_snoc:
  "List.map_filter f (xs @ [x])
     = List.map_filter f xs @ (case f x of None \<Rightarrow> [] | Some y \<Rightarrow> [y])"
  by (simp add: List.map_filter_def split: option.splits)

lemma try_add_outcome:
  "try_add h rt w isNA agg row outSet
     = (case set_outcome h rt w isNA agg row of
          Inl e \<Rightarrow> Inl e
        | Inr None \<Rightarrow> Inr outSet
        | Inr (Some s) \<Rightarrow> Inr (set_add s outSet))"
proof (cases "set_value h rt w agg row")
  case (Inl e)
  then show ?thesis
    by (simp add: try_add_def set_outcome_def set_value_def)
next
  case v: (Inr v)
  show ?thesis
  proof (cases "isNA v")
    case (Inl e)
    with v show ?thesis
      by (simp add: try_add_def set_outcome_def set_value_def normalizeNA_def)
  next
    case na: (Inr na)
    show ?thesis
    proof (cases "na \<or> nullish v")
      case True
      with v na show ?thesis
        by (auto simp: try_add_def set_outcome_def set_value_def normalizeNA_def nullish_def)
    next
      case False
      with v na show ?thesis
        by (cases "js_String rt v")
           (simp_all add: try_add_def set_outcome_def set_value_def normalizeNA_def)
    qed
  qed
qed

lemma set_row_outcome:
  "set_row h rt w isNA tag agg row (outSet, ws)
     = (case set_entry h rt w isNA agg row of None \<Rightarrow> outSet | Some s \<Rightarrow> set_add s outSet,
        ws @ (case set_warning h rt w isNA tag agg row of None \<Rightarrow> [] | Some m \<Rightarrow> [m]))"
  by (simp add: set_row_def try_add_outcome set_entry_def set_warning_def
      split: sum.splits option.splits)

lemma set_rows_exact:
  "set_rows h rt w isNA tag agg rows ([], ws)
     = (first_occurrences (List.map_filter (set_entry h rt w isNA agg) rows),
        ws @ List.map_filter (set_warning h rt w isNA tag agg) rows)"
proof (induction rows rule: rev_induct)
  case Nil
  show ?case by (simp add: first_occurrences_def List.map_filter_def)
next
  case (snoc row rows)
  show ?case
    by (simp add: set_rows_snoc snoc set_row_outcome map_filter_snoc first_occurrences_snoc
        split: option.splits)
qed

lemma set_entry_iff:
  "set_entry h rt w isNA agg row = Some s \<longleftrightarrow>
     (\<exists>v. (if truthy (agg_valueExpr agg)
           then evalTyped h rt w (js_or (agg_valueExprType agg) (JStr ''jsonata''))
                  (agg_valueExpr agg) row
           else first_own_value row) = Inr v
        \<and> isNA v = Inr False \<and> \<not> nullish v \<and> js_String rt v = Inr s \<and> js_trim rt s \<noteq> [])"
  by (auto simp: set_entry_def set_outcome_def then_do_Inr_iff split: sum.splits if_splits)

lemma outcome_warning:
  "(case then_do val (\<lambda>v. then_do (isNA v) (\<lambda>na.
            if na \<or> nullish v then Inr None
            else then_do (js_String rt v) (\<lambda>s.
                   Inr (if js_trim rt s = [] then None else Some s)))) of
      Inl e \<Rightarrow> Some (JStr (tag @ '' set valueExpr error: '' @ exn_message e))
    | Inr entry \<Rightarrow> None) = Some m \<longleftrightarrow>
   (\<exists>e. m = JStr (tag @ '' set valueExpr error: '' @ exn_message e)
      \<and> (val = Inl e
         \<or> (\<exists>v. val = Inr v
               \<and> (isNA v = Inl e
                  \<or> (isNA v = Inr False \<and> \<not> nullish v \<and> js_String rt v = Inl e)))))"
proof (cases val)
  case (Inl e)
  then show ?thesis by auto
next
  case v: (Inr v)
  show ?thesis
  proof (cases "isNA v")
    case (Inl e)
    with v show ?thesis by auto
  next
    case na: (Inr na)
    show ?thesis
    proof (cases "na \<or> nullish v")
      case True
      with v na show ?thesis by auto
    next
      case False
      with v na show ?thesis by (cases "js_String rt v") auto
    qed
  qed
qed

lemma set_warning_iff:
  "set_warning h rt w isNA tag agg row = Some m \<longleftrightarrow>
     (\<exists>e. m = JStr (tag @ '' set valueExpr error: '' @ exn_message e)
        \<and> ((if truthy (agg_valueExpr agg)
             then evalTyped h rt w (js_or (agg_valueExprType agg) (JStr ''jsonata''))
                    (agg_valueExpr agg) row
             else first_own_value row) = Inl e
           \<or> (\<exists>v. (if truthy (agg_valueExpr agg)
                    then evalTyped h rt w (js_or (agg_valueExprType agg) (JStr ''jsonata''))
                           (agg_valueExpr agg) row
                    else first_own_value row) = Inr v
                 \<and> (isNA v = Inl e
                    \<or> (isNA v = Inr False \<and> \<not> nullish v \<and> js_String rt v = Inl e)))))"
  unfolding set_warning_def set_outcome_def by (rule outcome_warning)

lemma set_entry_not_blank:
  assumes "s \<in> set (List.map_filter (set_entry h rt w isNA agg) rows)"
  shows "js_trim rt s \<noteq> []"
proof -
  from assms obtain row where "set_entry h rt w isNA agg row = Some s"
    by (auto simp: List.map_filter_def)
  then show ?thesis
    unfolding set_entry_iff by blast
qed

text \<open>
  Claim C5. The result of the \<^verbatim>\<open>set\<close> aggregator is an array of strings: the
  string forms of the values of the records, each once, in the order of first insertion,
  where a record counts when its value (that of the value expression when the
  configuration has one, that of its first own property otherwise) evaluates and is not
  NA, nor \<^verbatim>\<open>null\<close> or \<^verbatim>\<open>undefined\<close>, and has a string form that is not blank
  once trimmed. So the array holds no \<^verbatim>\<open>null\<close>, no \<^verbatim>\<open>undefined\<close>, no string that
  is blank once trimmed, and no string twice. A record fails when its value throws, when
  the NA test throws on the value, or when the value, not being NA, has no string form; a
  record that fails adds one warning, with the message of what was thrown, and nothing
  else; the warnings come after those there were, in the order of the records, and the
  records after a failing one are handled as usual.
\<close>

theorem set_aggregate:
  "(mode_of r = JStr ''set'' \<longrightarrow>
     aggregate h rt w isNA tag r mapped ws
       = (JArr (map JStr (first_occurrences
                  (List.map_filter (set_entry h rt w isNA (agg_of r)) mapped))),
          ws @ List.map_filter (set_warning h rt w isNA tag (agg_of r)) mapped)
     \<and> distinct (first_occurrences (List.map_filter (set_entry h rt w isNA (agg_of r)) mapped))
     \<and> (\<forall>s \<in> set (first_occurrences (List.map_filter (set_entry h rt w isNA (agg_of r)) mapped)).
          js_trim rt s \<noteq> [])
     \<and> JNull \<notin> set (map JStr (first_occurrences
                  (List.map_filter (set_entry h rt w isNA (agg_of r)) mapped)))
     \<and> JUndef \<notin> set (map JStr (first_occurrences
                  (List.map_filter (set_entry h rt w isNA (agg_of r)) mapped))))
   \<and> (set_entry h rt w isNA agg row = Some s \<longleftrightarrow>
        (\<exists>v. (if truthy (agg_valueExpr agg)
              then evalTyped h rt w (js_or (agg_valueExprType agg) (JStr ''jsonata''))
                     (agg_valueExpr agg) row
              else first_own_value row) = Inr v
           \<and> isNA v = Inr False \<and> \<not> nullish v \<and> js_String rt v = Inr s
           \<and> js_trim rt s \<noteq> []))
   \<and> (set_warning h rt w isNA tag agg row = Some m \<longleftrightarrow>
        (\<exists>e. m = JStr (tag @ '' set valueExpr error: '' @ exn_message e)
           \<and> ((if truthy (agg_valueExpr agg)
                then evalTyped h rt w (js_or (agg_valueExprType agg) (JStr ''jsonata''))
                       (agg_valueExpr agg) row
                else first_own_value row) = Inl e
              \<or> (\<exists>v. (if truthy (agg_valueExpr agg)
                       then evalTyped h rt w (js_or (agg_valueExprType agg) (JStr ''jsonata''))
                              (agg_valueExpr agg) row
                       else first_own_value row) = Inr v
                    \<and> (isNA v = Inl e
                       \<or> (isNA v = Inr False \<and> \<not> nullish v \<and> js_String rt v = Inl e))))))"
proof -
  let ?entries = "first_occurrences (List.map_filter (set_entry h rt w isNA (agg_of r)) mapped)"
  have a: "aggregate h rt w isNA tag r mapped ws
       = (JArr (map JStr ?entries),
          ws @ List.map_filter (set_warning h rt w isNA tag (agg_of r)) mapped)"
    if "mode_of r = JStr ''set''"
    using that by (simp add: aggregate_def set_rows_exact)
  have b: "distinct ?entries" by (rule distinct_first_occurrences)
  have c: "\<forall>s \<in> set ?entries. js_trim rt s \<noteq> []"
    using set_entry_not_blank [of _ h rt w isNA "agg_of r" mapped]
    by (simp add: set_first_occurrences)
  have d: "JNull \<notin> set (map JStr ?entries)" "JUndef \<notin> set (map JStr ?entries)"
    by auto
  have m: "mode_of r = JStr ''set'' \<longrightarrow>
     aggregate h rt w isNA tag r mapped ws
       = (JArr (map JStr ?entries),
          ws @ List.map_filter (set_warning h rt w isNA tag (agg_of r)) mapped)
     \<and> distinct ?entries
     \<and> (\<forall>s \<in> set ?entries. js_trim rt s \<noteq> [])
     \<and> JNull \<notin> set (map JStr ?entries)
     \<and> JUndef \<notin> set (map JStr ?entries)"
    using a b c d by blast
  show ?thesis
    by (intro conjI) (rule m set_entry_iff set_warning_iff)+
qed

theorem set_aggregate_witness:
  "aggregate stub_host stub_rt ex_world ex_isNA ''[rule:items]''
      (ex_rule\<lparr>r_aggregate := Some ex_set_agg\<rparr>) ex_records [JStr ''earlier warning'']
     = (JArr [JStr ''alpha'', JStr ''beta''],
        [JStr ''earlier warning'',
         JStr ''[rule:items] set valueExpr error: Cannot convert undefined or null to object'',
         JStr ''[rule:items] set valueExpr error: Cannot convert object to primitive value''])
   \<and> aggregate stub_host stub_rt ex_world ex_isNA ''[rule:items]''
      (ex_rule\<lparr>r_aggregate := Some (ex_set_agg\<lparr>agg_valueExpr := JStr ''name''\<rparr>)\<rparr>) ex_records
      [JStr ''earlier warning'']
     = (JArr [JStr ''alpha'', JStr ''beta''],
        [JStr ''earlier warning'',
         JStr ''[rule:items] set valueExpr error: Cannot convert object to primitive value''])"
proof -
  let ?r1 = "ex_rule\<lparr>r_aggregate := Some ex_set_agg\<rparr>"
  let ?agg2 = "ex_set_agg\<lparr>agg_valueExpr := JStr ''name''\<rparr>"
  let ?r2 = "ex_rule\<lparr>r_aggregate := Some ?agg2\<rparr>"
  have t: "stub_trim ''alpha'' = ''alpha''" "stub_trim ''beta'' = ''beta''"
    "stub_trim ''NA'' = ''NA''"
    by (simp_all add: stub_trim_def is_space_def)
  have c: "lower_char CHR ''N'' = CHR ''n''" "lower_char CHR ''A'' = CHR ''a''"
    by code_simp+
  have na: "ex_isNA (JStr ''alpha'') = Inr False" "ex_isNA (JStr ''beta'') = Inr False"
    "ex_isNA (JStr ''NA'') = Inr True" "ex_isNA JUndef = Inr True"
    "ex_isNA ex_odd = Inl type_error"
    by (simp_all add: ex_isNA_def na_test_def nullish_def stub_rt_simps t c stub_String_odd)
      (simp_all add: lower_char_def ex_odd_def)
  have m: "mode_of ?r1 = JStr ''set''" "agg_of ?r1 = ex_set_agg"
    "mode_of ?r2 = JStr ''set''" "agg_of ?r2 = ?agg2"
    by (simp_all add: mode_of_def agg_of_def ex_set_agg_def default_agg_def js_or_def)
  have o: "\<not> nullish ex_odd" by (simp add: nullish_def ex_odd_def)
  have en1: "List.map_filter (set_entry stub_host stub_rt ex_world ex_isNA ex_set_agg) ex_records
      = [''alpha'', ''beta'', ''alpha'']"
    by (simp add: List.map_filter_def set_entry_def set_outcome_def first_own_value_def na t
        ex_set_agg_def default_agg_def ex_records_def stub_rt_simps nullish_def)
  have wn1: "List.map_filter (set_warning stub_host stub_rt ex_world ex_isNA ''[rule:items]''
               ex_set_agg) ex_records
      = [JStr ''[rule:items] set valueExpr error: Cannot convert undefined or null to object'',
         JStr ''[rule:items] set valueExpr error: Cannot convert object to primitive value'']"
    by (simp add: List.map_filter_def set_warning_def set_outcome_def first_own_value_def na t
        ex_set_agg_def default_agg_def ex_records_def stub_rt_simps nullish_def type_error_def)
  have en2: "List.map_filter (set_entry stub_host stub_rt ex_world ex_isNA ?agg2) ex_records
      = [''alpha'', ''beta'', ''alpha'']"
    by (simp add: List.map_filter_def set_entry_def set_outcome_def na t
        evalTyped_def jsonataEval_def data_root_def own_entries_def
        define_prop_def array_index_def digit_of_def stub_host_def stub_jsonata_def
        ex_world_def ex_msg_def js_or_def get_own_def
        ex_set_agg_def default_agg_def ex_records_def stub_rt_simps nullish_def)
  have wn2: "List.map_filter (set_warning stub_host stub_rt ex_world ex_isNA ''[rule:items]''
               ?agg2) ex_records
      = [JStr ''[rule:items] set valueExpr error: Cannot convert object to primitive value'']"
    by (simp add: List.map_filter_def set_warning_def set_outcome_def na t
        evalTyped_def jsonataEval_def data_root_def own_entries_def
        define_prop_def array_index_def digit_of_def stub_host_def stub_jsonata_def
        ex_world_def ex_msg_def js_or_def get_own_def
        ex_set_agg_def default_agg_def ex_records_def stub_rt_simps nullish_def type_error_def)
  have fo: "first_occurrences [''alpha'', ''beta'', ''alpha''] = [''alpha'', ''beta'']"
    by (simp add: first_occurrences_def)
  note th1 = set_aggregate [where r = ?r1 and h = stub_host and rt = stub_rt and w = ex_world
      and isNA = ex_isNA and tag = "''[rule:items]''" and mapped = ex_records
      and ws = "[JStr ''earlier warning'']" and agg = ex_set_agg and row = JNull and s = "[]"
      and m = JNull, THEN conjunct1]
  note th2 = set_aggregate [where r = ?r2 and h = stub_host and rt = stub_rt and w = ex_world
      and isNA = ex_isNA and tag = "''[rule:items]''" and mapped = ex_records
      and ws = "[JStr ''earlier warning'']" and agg = ex_set_agg and row = JNull and s = "[]"
      and m = JNull, THEN conjunct1]
  from th1 m(1,2) en1 wn1 fo
  have first: "aggregate stub_host stub_rt ex_world ex_isNA ''[rule:items]'' ?r1 ex_records
      [JStr ''earlier warning'']
     = (JArr [JStr ''alpha'', JStr ''beta''],
        [JStr ''earlier warning'',
         JStr ''[rule:items] set valueExpr error: Cannot convert undefined or null to object'',
         JStr ''[rule:items] set valueExpr error: Cannot convert object to primitive value''])"
    by simp
  from th2 m(3,4) en2 wn2 fo
  have second: "aggregate stub_host stub_rt ex_world ex_isNA ''[rule:items]'' ?r2 ex_records
      [JStr ''earlier warning'']
     = (JArr [JStr ''alpha'', JStr ''beta''],
        [JStr ''earlier warning'',
         JStr ''[rule:items] set valueExpr error: Cannot convert object to primitive value''])"
    by simp
  from first second show ?thesis by simp
qed

text \<open>
  The \<^verbatim>\<open>objectByKey\<close> loop, record by record: a key expression that throws, and a
  key with no string form, leave the object as it is and push one warning; otherwise the
  record is assigned under the string form of its key. The assignment stores the record,
  replacing what the key held, for every key but \<^verbatim>\<open>__proto__\<close>, and does nothing for
  that one.
\<close>

lemma has_key_iff: "has_key k ps \<longleftrightarrow> k \<in> fst ` set ps"
  by (induction ps) auto

lemma map_of_replace_prop:
  "has_key k ps \<Longrightarrow> map_of (replace_prop k v ps) k' = (if k' = k then Some v else map_of ps k')"
  by (induction ps) auto

lemma map_of_insert_index:
  "\<not> has_key k ps \<Longrightarrow>
     map_of (insert_index n k v ps) k' = (if k' = k then Some v else map_of ps k')"
  by (induction ps) (auto split: option.splits)

lemma map_of_not_has_key: "\<not> has_key k ps \<Longrightarrow> map_of ps k = None"
  by (induction ps) auto

lemma map_of_define_prop:
  "map_of (define_prop k v ps) k' = (if k' = k then Some v else map_of ps k')"
  by (cases "has_key k ps")
     (auto simp: define_prop_def map_of_replace_prop map_of_insert_index map_of_not_has_key
        map_add_def split: option.splits)

lemma assign_prop_stores:
  "k \<noteq> ''__proto__'' \<Longrightarrow>
     map_of (assign_prop k v ps) k' = (if k' = k then Some v else map_of ps k')"
  by (simp add: assign_prop_def map_of_define_prop)

lemma assign_prop_proto:
  "\<not> has_key ''__proto__'' ps \<Longrightarrow> assign_prop ''__proto__'' v ps = ps"
  by (simp add: assign_prop_def)

lemma objectByKey_row_cases:
  "objectByKey_row h rt w tag agg row acc =
     (case evalTyped h rt w (js_or (agg_keyExprType agg) (JStr ''jsonata'')) (agg_keyExpr agg) row of
        Inl e \<Rightarrow>
          (fst acc, snd acc @ [JStr (tag @ '' objectByKey keyExpr error: '' @ exn_message e)])
      | Inr k \<Rightarrow>
          (case js_String rt (js_coalesce k (JStr [])) of
             Inl e \<Rightarrow>
               (fst acc, snd acc @ [JStr (tag @ '' objectByKey keyExpr error: '' @ exn_message e)])
           | Inr s \<Rightarrow> (assign_prop s row (fst acc), snd acc)))"
  by (simp add: objectByKey_row_def record_key_def split: sum.splits)

text \<open>
  Claim C6 says that \<^verbatim>\<open>objectByKey\<close> inserts each record under its stringified
  key. The aggregator assigns \<^verbatim>\<open>obj[String(k ?? "")] = row\<close> on an object made by
  \<^verbatim>\<open>{}\<close>, and for the key \<^verbatim>\<open>__proto__\<close> that assignment sets the prototype of
  \<^verbatim>\<open>obj\<close> and inserts nothing: of two records named \<^verbatim>\<open>alpha\<close> and
  \<^verbatim>\<open>__proto__\<close>, keyed by name, only the first is in the result, and no warning
  is pushed. The other parts of the claim hold: a later record replaces an earlier one
  with the same key (\<open>assign_prop_stores\<close>), the number of keys is at most the number
  of records (\<open>objectByKey_rows_length\<close>), and a key expression that throws gives one
  warning and no insertion (\<open>objectByKey_row_cases\<close>).
\<close>

theorem objectByKey_proto_key:
  "aggregate stub_host stub_rt ex_world ex_isNA ''[rule:items]''
      (ex_rule\<lparr>r_aggregate := Some ex_key_agg\<rparr>)
      [JObj [(''name'', JStr ''alpha'')], JObj [(''name'', JStr ''__proto__'')]] []
     = (JObj [(''alpha'', JObj [(''name'', JStr ''alpha'')])], [])"
  by (simp add: aggregate_def mode_of_def agg_of_def ex_key_agg_def default_agg_def
      objectByKey_row_def record_key_def evalTyped_def jsonataEval_def data_root_def
      own_entries_def assign_prop_def define_prop_def array_index_def digit_of_def
      stub_host_def stub_rt_simps stub_jsonata_def ex_rule_def ex_world_def ex_msg_def
      js_or_def js_coalesce_def nullish_def get_own_def Let_def)

section \<open>Empty results and the summary\<close>






end
